theory Spec2Isabelle
  imports Main "HOL-Library.Multiset" "HOL-Library.Product_Lexorder" "HOL-Library.List_Lexorder"
    "HOL-Library.Char_ord"
begin

section \<open>Values, exceptions and the interaction trace\<close>

text \<open>
  The command handlers of the client are Python functions that talk to collaborators:
  the HTTP helpers, the history log, the logging helpers, the validators and standard
  input. A handler is embedded as a function from a state to an outcome and a new state.
  The state holds the lines still unread on standard input, a counter of the collaborator
  calls made so far, and the trace of the observable calls the handler has issued.
\<close>

text \<open>
  A network object of the standard \<^verbatim>\<open>ipaddress\<close> module, reduced to the attributes the
  handlers read: its version, its network address and prefix length, and its text
  (what \<^verbatim>\<open>str\<close> returns for it).
\<close>

datatype ipver = V4 | V6

record network =
  version :: ipver
  network_address :: int
  prefixlen :: nat
  net_text :: string

datatype pyval =
    VNone
  | VBool bool
  | VInt int
  | VStr string
  | VList "pyval list"
  | VDict "(string \<times> pyval) list"
  | VNet network

type_synonym dict = "(string \<times> pyval) list"

datatype exc =
    ValueError string
  | IndexError
  | KeyError string
  | TypeError
  | AssertionError string
  | EOFError
  | UnboundLocalError string
  | HostNotFoundWarning
  | OtherError string

text \<open>
  The observable calls. The optional flags of the \<^verbatim>\<open>record_*\<close> calls are kept as they
  are passed: \<open>None\<close> stands for an argument the call site leaves out.
  \<open>RecordGet url extra\<close> keeps the positional arguments after the URL;
  \<open>RecordPost url resource_name new_data undoable redoable\<close>,
  \<open>RecordPatch url new_data old_data undoable redoable\<close> and
  \<open>RecordDelete url old_data undoable redoable\<close> follow the parameter names of the calls.
\<close>

datatype event =
    RecordGet string "pyval list"
  | RecordPost string pyval pyval "bool option" "bool option"
  | RecordPatch string pyval pyval "bool option" "bool option"
  | RecordDelete string pyval "bool option" "bool option"
  | HistoryPrint
  | HistoryUndo int
  | HistoryRedo int
  | GetList string
  | HttpGet string
  | HttpPost string dict
  | HttpPatch string dict
  | HttpDelete string
  | Warning string "bool option"
  | Info string "bool option"
  | Prompt string
  | PrintPerm pyval pyval pyval
  | PrintOut string "pyval list"

record state =
  stdin :: "string list"
  clock :: nat
  trace :: "event list"

text \<open>
  The collaborators are not part of the handlers. Their behaviour is a parameter: the
  \<open>n\<close>-th collaborator call of a run either raises or returns a value, as \<open>answer\<close> says.
  \<open>server_ip\<close> and \<open>server_port\<close> are the two configuration fields, and \<open>ip_network\<close> is the
  parser of the standard \<^verbatim>\<open>ipaddress\<close> module. \<open>sorted_by\<close> is \<^verbatim>\<open>sorted(xs, key=lambda k: k[f])\<close>
  of the interpreter for the lists whose keys are not all strings: its answer depends on
  the comparisons that the sorting algorithm happens to make.
\<close>

record world =
  server_ip :: pyval
  server_port :: pyval
  answer :: "nat \<Rightarrow> exc + pyval"
  ip_network :: "pyval \<Rightarrow> exc + network"
  sorted_by :: "string \<Rightarrow> pyval list \<Rightarrow> exc + pyval list"

type_synonym 'a prog = "state \<Rightarrow> (exc + 'a) \<times> state"

definition ret :: "'a \<Rightarrow> 'a prog" where
  "ret x s = (Inr x, s)"

definition raise :: "exc \<Rightarrow> 'a prog" where
  "raise e s = (Inl e, s)"

definition lift :: "exc + 'a \<Rightarrow> 'a prog" where
  "lift r s = (r, s)"

definition bind :: "'a prog \<Rightarrow> ('a \<Rightarrow> 'b prog) \<Rightarrow> 'b prog" where
  "bind m f s = (case m s of (Inl e, s') \<Rightarrow> (Inl e, s') | (Inr x, s') \<Rightarrow> f x s')"

text \<open>\<open>try_except m caught h\<close>: an exception of \<open>m\<close> that the clause catches runs \<open>h\<close>.\<close>

definition try_except :: "'a prog \<Rightarrow> (exc \<Rightarrow> bool) \<Rightarrow> (exc \<Rightarrow> 'a prog) \<Rightarrow> 'a prog" where
  "try_except m caught h s =
     (case m s of
        (Inl e, s') \<Rightarrow> if caught e then h e s' else (Inl e, s')
      | (Inr x, s') \<Rightarrow> (Inr x, s'))"

definition emit :: "event \<Rightarrow> unit prog" where
  "emit ev s = (Inr (), s\<lparr>trace := trace s @ [ev]\<rparr>)"

definition call :: "world \<Rightarrow> pyval prog" where
  "call w s = (answer w (clock s), s\<lparr>clock := Suc (clock s)\<rparr>)"

text \<open>\<^verbatim>\<open>input(prompt)\<close>: the next line of standard input, \<^verbatim>\<open>EOFError\<close> at its end.\<close>

definition input :: "string \<Rightarrow> string prog" where
  "input prompt s =
     (case stdin s of
        [] \<Rightarrow> (Inl EOFError, s\<lparr>trace := trace s @ [Prompt prompt]\<rparr>)
      | l # ls \<Rightarrow> (Inr l, s\<lparr>stdin := ls, trace := trace s @ [Prompt prompt]\<rparr>))"

primrec for_each :: "'a list \<Rightarrow> ('a \<Rightarrow> unit prog) \<Rightarrow> unit prog" where
  "for_each [] f = ret ()"
| "for_each (x # xs) f = bind (f x) (\<lambda>_. for_each xs f)"

subsection \<open>Python's operations on values\<close>

definition is_ValueError :: "exc \<Rightarrow> bool" where
  "is_ValueError e = (case e of ValueError _ \<Rightarrow> True | _ \<Rightarrow> False)"

definition is_HostNotFoundWarning :: "exc \<Rightarrow> bool" where
  "is_HostNotFoundWarning e = (e = HostNotFoundWarning)"

text \<open>\<^verbatim>\<open>args[i]\<close> on a list of strings, for an index that is not negative.\<close>

definition index :: "'a list \<Rightarrow> nat \<Rightarrow> exc + 'a" where
  "index xs i = (if i < length xs then Inr (xs ! i) else Inl IndexError)"

definition digit_char :: "nat \<Rightarrow> char" where
  "digit_char n = char_of (48 + n)"

fun dec_nat :: "nat \<Rightarrow> string" where
  "dec_nat n = (if n < 10 then [digit_char n] else dec_nat (n div 10) @ [digit_char (n mod 10)])"

definition dec_int :: "int \<Rightarrow> string" where
  "dec_int i = (if i < 0 then CHR ''-'' # dec_nat (nat (- i)) else dec_nat (nat i))"

definition hex_char :: "nat \<Rightarrow> char" where
  "hex_char n = (if n < 10 then char_of (48 + n) else char_of (87 + n))"

text \<open>
  \<^verbatim>\<open>repr\<close> of a string. A character is a code point below 256. The quotes are single
  unless the string holds a single quote and no double quote; the backslash and the chosen
  quote are escaped, and so are the characters that are not printable: the control
  characters, the no-break space and the soft hyphen.
\<close>

definition repr_char :: "char \<Rightarrow> char \<Rightarrow> string" where
  "repr_char q c =
     (let n = (of_char c :: nat) in
      if c = CHR 0x5C then [CHR 0x5C, CHR 0x5C]
      else if c = q then [CHR 0x5C, q]
      else if n = 10 then [CHR 0x5C, CHR ''n'']
      else if n = 13 then [CHR 0x5C, CHR ''r'']
      else if n = 9 then [CHR 0x5C, CHR ''t'']
      else if n < 32 \<or> (127 \<le> n \<and> n \<le> 160) \<or> n = 173
      then [CHR 0x5C, CHR ''x'', hex_char (n div 16), hex_char (n mod 16)]
      else [c])"

definition repr_str :: "string \<Rightarrow> string" where
  "repr_str s =
     (let q = (if CHR 0x27 \<in> set s \<and> CHR 0x22 \<notin> set s then CHR 0x22 else CHR 0x27)
      in q # concat (map (repr_char q) s) @ [q])"

text \<open>\<^verbatim>\<open>str(e)\<close> of an exception built from one message.\<close>

definition exc_str :: "exc \<Rightarrow> string" where
  "exc_str e = (case e of
      ValueError m \<Rightarrow> m | KeyError k \<Rightarrow> repr_str k | AssertionError m \<Rightarrow> m
    | UnboundLocalError m \<Rightarrow> m | OtherError m \<Rightarrow> m | _ \<Rightarrow> [])"

text \<open>
  \<^verbatim>\<open>int(s)\<close> for a string, as CPython 3.11 computes it with its default limit of 4300
  digits. White space is skipped at both ends: the six characters of C's \<^verbatim>\<open>isspace\<close>, and
  the two other spaces below 256, U+0085 and U+00A0, which the interpreter turns into a
  space first. Then comes an optional sign and the literal: decimal digits, with single
  underscores allowed between two digits.
\<close>

definition int_space :: "char \<Rightarrow> bool" where
  "int_space c = ((of_char c :: nat) \<in> {9, 10, 11, 12, 13, 32, 133, 160})"

definition is_digit :: "char \<Rightarrow> bool" where
  "is_digit c = (48 \<le> (of_char c :: nat) \<and> (of_char c :: nat) \<le> 57)"

definition digit_or_underscore :: "char \<Rightarrow> bool" where
  "digit_or_underscore c = (is_digit c \<or> c = CHR ''_'')"

fun doubled_underscore :: "string \<Rightarrow> bool" where
  "doubled_underscore (a # b # cs) =
     ((a = CHR ''_'' \<and> b = CHR ''_'') \<or> doubled_underscore (b # cs))"
| "doubled_underscore cs = False"

definition literal_ok :: "string \<Rightarrow> bool" where
  "literal_ok run =
     (run \<noteq> [] \<and> hd run \<noteq> CHR ''_'' \<and> last run \<noteq> CHR ''_'' \<and> \<not> doubled_underscore run)"

definition digits_value :: "string \<Rightarrow> int" where
  "digits_value ds = foldl (\<lambda>acc c. 10 * acc + ((of_char c :: int) - 48)) 0 ds"

text \<open>The two errors of \<^verbatim>\<open>int\<close>. The first shows at most 200 characters of the \<^verbatim>\<open>repr\<close>.\<close>

definition invalid_literal :: "string \<Rightarrow> exc" where
  "invalid_literal s =
     ValueError (''invalid literal for int() with base 10: '' @ take 200 (repr_str s))"

definition too_many_digits :: "nat \<Rightarrow> exc" where
  "too_many_digits n =
     ValueError (''Exceeds the limit (4300 digits) for integer string conversion: value has ''
                 @ dec_nat n
                 @ '' digits; use sys.set_int_max_str_digits() to increase the limit'')"

text \<open>
  The literal \<open>lit\<close>, with what follows it: the literal is checked
  first, then the number of its digits, and only then what follows it.
\<close>

definition int_of_literal :: "string \<Rightarrow> bool \<Rightarrow> string \<Rightarrow> string \<Rightarrow> exc + int" where
  "int_of_literal s negative lit rest =
     (if \<not> literal_ok lit then Inl (invalid_literal s)
      else if 4300 < int (length (filter is_digit lit))
      then Inl (too_many_digits (length (filter is_digit lit)))
      else if dropWhile int_space rest \<noteq> [] then Inl (invalid_literal s)
      else Inr (if negative then - digits_value (filter is_digit lit)
                else digits_value (filter is_digit lit)))"

definition py_int :: "string \<Rightarrow> exc + int" where
  "py_int s =
     (let t = dropWhile int_space s;
          negative = (t \<noteq> [] \<and> hd t = CHR ''-'');
          u = (if t \<noteq> [] \<and> (hd t = CHR ''-'' \<or> hd t = CHR ''+'') then tl t else t)
      in int_of_literal s negative (takeWhile digit_or_underscore u)
           (dropWhile digit_or_underscore u))"

fun join :: "string \<Rightarrow> string list \<Rightarrow> string" where
  "join sep [] = []"
| "join sep [x] = x"
| "join sep (x # y # ys) = x @ sep @ join sep (y # ys)"

fun py_repr :: "pyval \<Rightarrow> string" where
  "py_repr VNone = ''None''"
| "py_repr (VBool b) = (if b then ''True'' else ''False'')"
| "py_repr (VInt i) = dec_int i"
| "py_repr (VStr s) = repr_str s"
| "py_repr (VList xs) = ''['' @ join '', '' (map py_repr xs) @ '']''"
| "py_repr (VDict d) =
     ''{'' @ join '', '' (map (\<lambda>kv. repr_str (fst kv) @ '': '' @ py_repr (snd kv)) d) @ ''}''"
| "py_repr (VNet n) =
     (if version n = V4 then ''IPv4Network('' else ''IPv6Network('') @ repr_str (net_text n) @ '')''"

definition py_str :: "pyval \<Rightarrow> string" where
  "py_str v = (case v of VStr s \<Rightarrow> s | VNet n \<Rightarrow> net_text n | _ \<Rightarrow> py_repr v)"

text \<open>
  \<^verbatim>\<open>fmt.format(a, b, ...)\<close> for a format string whose only fields are \<^verbatim>\<open>{}\<close>: each field is
  replaced by \<^verbatim>\<open>str\<close> of the next argument.
\<close>

fun py_format :: "string \<Rightarrow> pyval list \<Rightarrow> string" where
  "py_format [] as = []"
| "py_format (c # cs) as =
     (if c = CHR ''{'' \<and> cs \<noteq> [] \<and> hd cs = CHR ''}'' \<and> as \<noteq> []
      then py_str (hd as) @ py_format (tl cs) (tl as)
      else c # py_format cs as)"

subsection \<open>Truth, length, subscripts and iteration\<close>

definition truthy :: "pyval \<Rightarrow> bool" where
  "truthy v = (case v of
      VNone \<Rightarrow> False | VBool b \<Rightarrow> b | VInt i \<Rightarrow> i \<noteq> 0 | VStr s \<Rightarrow> s \<noteq> []
    | VList xs \<Rightarrow> xs \<noteq> [] | VDict d \<Rightarrow> d \<noteq> [] | VNet n \<Rightarrow> True)"

definition py_len :: "pyval \<Rightarrow> exc + nat" where
  "py_len v = (case v of
      VStr s \<Rightarrow> Inr (length s) | VList xs \<Rightarrow> Inr (length xs) | VDict d \<Rightarrow> Inr (length d)
    | _ \<Rightarrow> Inl TypeError)"

text \<open>\<^verbatim>\<open>v[k]\<close> for a string key: only a dictionary can be subscripted by a string.\<close>

definition getitem :: "pyval \<Rightarrow> string \<Rightarrow> exc + pyval" where
  "getitem v k = (case v of
      VDict d \<Rightarrow> (case map_of d k of Some x \<Rightarrow> Inr x | None \<Rightarrow> Inl (KeyError k))
    | _ \<Rightarrow> Inl TypeError)"

text \<open>\<^verbatim>\<open>v[i]\<close> for an index that is not negative.\<close>

text \<open>\<^verbatim>\<open>isinstance(v, dict)\<close>.\<close>

definition is_dict :: "pyval \<Rightarrow> bool" where
  "is_dict v = (case v of VDict d \<Rightarrow> True | _ \<Rightarrow> False)"

definition getindex :: "pyval \<Rightarrow> nat \<Rightarrow> exc + pyval" where
  "getindex v i = (case v of
      VList xs \<Rightarrow> index xs i
    | VStr s \<Rightarrow> (if i < length s then Inr (VStr [s ! i]) else Inl IndexError)
    | VDict d \<Rightarrow> Inl (KeyError (dec_nat i))
    | _ \<Rightarrow> Inl TypeError)"

text \<open>
  \<^verbatim>\<open>d[k] = x\<close> on a dictionary: the value of an existing key is replaced where it stands,
  a new key goes to the end.
\<close>

fun dict_set :: "string \<Rightarrow> pyval \<Rightarrow> dict \<Rightarrow> dict" where
  "dict_set k x [] = [(k, x)]"
| "dict_set k x (p # ps) = (if fst p = k then (k, x) # ps else p # dict_set k x ps)"

definition setitem :: "pyval \<Rightarrow> string \<Rightarrow> pyval \<Rightarrow> exc + pyval" where
  "setitem v k x = (case v of VDict d \<Rightarrow> Inr (VDict (dict_set k x d)) | _ \<Rightarrow> Inl TypeError)"

text \<open>The elements a \<^verbatim>\<open>for\<close> loop visits.\<close>

definition iter_list :: "pyval \<Rightarrow> exc + pyval list" where
  "iter_list v = (case v of
      VList xs \<Rightarrow> Inr xs
    | VDict d \<Rightarrow> Inr (map (\<lambda>kv. VStr (fst kv)) d)
    | VStr s \<Rightarrow> Inr (map (\<lambda>c. VStr [c]) s)
    | _ \<Rightarrow> Inl TypeError)"

definition keys :: "pyval \<Rightarrow> string set" where
  "keys v = (case v of VDict d \<Rightarrow> set (map fst d) | _ \<Rightarrow> {})"

text \<open>A loop that carries a value from one round to the next.\<close>

primrec fold_prog :: "'a list \<Rightarrow> ('a \<Rightarrow> 'b \<Rightarrow> 'b prog) \<Rightarrow> 'b \<Rightarrow> 'b prog" where
  "fold_prog [] f acc = ret acc"
| "fold_prog (x # xs) f acc = bind (f x acc) (fold_prog xs f)"

text \<open>\<^verbatim>\<open>urllib.parse.urlencode\<close> of a dictionary, with \<^verbatim>\<open>quote_plus\<close> on keys and values.\<close>

definition is_unreserved :: "char \<Rightarrow> bool" where
  "is_unreserved c =
     (let n = (of_char c :: nat) in
      (48 \<le> n \<and> n \<le> 57) \<or> (65 \<le> n \<and> n \<le> 90) \<or> (97 \<le> n \<and> n \<le> 122)
      \<or> c = CHR ''_'' \<or> c = CHR ''.'' \<or> c = CHR ''-'' \<or> c = CHR ''~'')"

definition upper_hex_char :: "nat \<Rightarrow> char" where
  "upper_hex_char n = (if n < 10 then char_of (48 + n) else char_of (55 + n))"

definition quote_plus :: "string \<Rightarrow> string" where
  "quote_plus s = concat (map (\<lambda>c.
      if is_unreserved c then [c]
      else if c = CHR '' '' then ''+''
      else [CHR ''%'', upper_hex_char ((of_char c :: nat) div 16),
            upper_hex_char ((of_char c :: nat) mod 16)]) s)"

definition urlencode :: "dict \<Rightarrow> string" where
  "urlencode q = join ''&'' (map (\<lambda>kv. quote_plus (fst kv) @ ''='' @ quote_plus (py_str (snd kv))) q)"

subsection \<open>The collaborators the handlers call\<close>

text \<open>
  Each helper below stands for a function of a module that the handlers import. A call
  is noted in the trace when it is observable, and its outcome is the world's answer.
\<close>

definition cli_warning :: "world \<Rightarrow> string \<Rightarrow> bool option \<Rightarrow> unit prog" where
  "cli_warning w msg flag = bind (emit (Warning msg flag)) (\<lambda>_. bind (call w) (\<lambda>_. ret ()))"

definition cli_info :: "world \<Rightarrow> string \<Rightarrow> bool option \<Rightarrow> unit prog" where
  "cli_info w msg flag = bind (emit (Info msg flag)) (\<lambda>_. bind (call w) (\<lambda>_. ret ()))"

definition history_print :: "world \<Rightarrow> unit prog" where
  "history_print w = bind (emit HistoryPrint) (\<lambda>_. bind (call w) (\<lambda>_. ret ()))"

definition history_undo :: "world \<Rightarrow> int \<Rightarrow> unit prog" where
  "history_undo w n = bind (emit (HistoryUndo n)) (\<lambda>_. bind (call w) (\<lambda>_. ret ()))"

definition history_redo :: "world \<Rightarrow> int \<Rightarrow> unit prog" where
  "history_redo w n = bind (emit (HistoryRedo n)) (\<lambda>_. bind (call w) (\<lambda>_. ret ()))"

definition get_list :: "world \<Rightarrow> string \<Rightarrow> pyval prog" where
  "get_list w path = bind (emit (GetList path)) (\<lambda>_. call w)"

definition is_valid_network :: "world \<Rightarrow> pyval \<Rightarrow> pyval prog" where
  "is_valid_network w v = call w"

definition http_post :: "world \<Rightarrow> string \<Rightarrow> dict \<Rightarrow> unit prog" where
  "http_post w url kwargs = bind (emit (HttpPost url kwargs)) (\<lambda>_. bind (call w) (\<lambda>_. ret ()))"

definition http_patch :: "world \<Rightarrow> string \<Rightarrow> dict \<Rightarrow> unit prog" where
  "http_patch w url kwargs = bind (emit (HttpPatch url kwargs)) (\<lambda>_. bind (call w) (\<lambda>_. ret ()))"

definition http_delete :: "world \<Rightarrow> string \<Rightarrow> unit prog" where
  "http_delete w url = bind (emit (HttpDelete url)) (\<lambda>_. bind (call w) (\<lambda>_. ret ()))"

definition record_get :: "world \<Rightarrow> string \<Rightarrow> pyval list \<Rightarrow> unit prog" where
  "record_get w url extra = bind (emit (RecordGet url extra)) (\<lambda>_. bind (call w) (\<lambda>_. ret ()))"

definition record_post ::
  "world \<Rightarrow> string \<Rightarrow> pyval \<Rightarrow> pyval \<Rightarrow> bool option \<Rightarrow> bool option \<Rightarrow> unit prog" where
  "record_post w url resource_name new_data undoable redoable =
     bind (emit (RecordPost url resource_name new_data undoable redoable))
       (\<lambda>_. bind (call w) (\<lambda>_. ret ()))"

definition record_patch ::
  "world \<Rightarrow> string \<Rightarrow> pyval \<Rightarrow> pyval \<Rightarrow> bool option \<Rightarrow> bool option \<Rightarrow> unit prog" where
  "record_patch w url new_data old_data undoable redoable =
     bind (emit (RecordPatch url new_data old_data undoable redoable))
       (\<lambda>_. bind (call w) (\<lambda>_. ret ()))"

definition record_delete ::
  "world \<Rightarrow> string \<Rightarrow> pyval \<Rightarrow> bool option \<Rightarrow> bool option \<Rightarrow> unit prog" where
  "record_delete w url old_data undoable redoable =
     bind (emit (RecordDelete url old_data undoable redoable))
       (\<lambda>_. bind (call w) (\<lambda>_. ret ()))"

section \<open>The History command\<close>

definition History_opt_print :: "world \<Rightarrow> string list \<Rightarrow> unit prog" where
  "History_opt_print w args = history_print w"

definition History_opt_redo :: "world \<Rightarrow> string list \<Rightarrow> unit prog" where
  "History_opt_redo w args =
     try_except
       (bind (lift (index args 0)) (\<lambda>a.
        bind (lift (py_int a)) (\<lambda>n.
        history_redo w n)))
       is_ValueError
       (\<lambda>e. cli_warning w (py_format ''invalid input: {}'' [VStr (exc_str e)]) None)"

definition History_opt_undo :: "world \<Rightarrow> string list \<Rightarrow> unit prog" where
  "History_opt_undo w args =
     try_except
       (bind (lift (index args 0)) (\<lambda>a.
        bind (lift (py_int a)) (\<lambda>n.
        history_undo w n)))
       is_ValueError
       (\<lambda>e. cli_warning w (py_format ''invalid input: {}'' [VStr (exc_str e)]) None)"

section \<open>The permission command\<close>

text \<open>The parsed command line: an argument that is not given is \<^verbatim>\<open>None\<close>.\<close>

record namespace =
  range_arg :: "string option"
  group_arg :: "string option"
  regex_arg :: "string option"

definition opt_val :: "string option \<Rightarrow> pyval" where
  "opt_val a = (case a of None \<Rightarrow> VNone | Some s \<Rightarrow> VStr s)"

text \<open>
  The order of two networks of one version: by network address, then by netmask.
  The netmask of a prefix length is the number whose leading bits are set.
\<close>

definition bits :: "network \<Rightarrow> nat" where
  "bits n = (if version n = V4 then 32 else 128)"

definition netmask :: "network \<Rightarrow> int" where
  "netmask n = 2 ^ bits n - 2 ^ (bits n - prefixlen n)"

definition broadcast_address :: "network \<Rightarrow> int" where
  "broadcast_address n = network_address n + (2 ^ (bits n - prefixlen n) - 1)"

definition net_key :: "network \<Rightarrow> int \<times> int" where
  "net_key n = (network_address n, netmask n)"

definition supernet_of :: "network \<Rightarrow> network \<Rightarrow> bool" where
  "supernet_of a b =
     (network_address a \<le> network_address b \<and> broadcast_address b \<le> broadcast_address a)"

text \<open>
  \<^verbatim>\<open>_networksort\<close>. The first loop parses the range of every entry, stores the network in
  the entry and files the entry under its version; \<open>v4\<close> and \<open>v6\<close> keep each entry
  together with the network that is its sort key. The sort is stable.
\<close>

definition networksort_step ::
  "world \<Rightarrow> pyval \<Rightarrow> (network \<times> pyval) list \<times> (network \<times> pyval) list
     \<Rightarrow> ((network \<times> pyval) list \<times> (network \<times> pyval) list) prog" where
  "networksort_step w i acc =
     bind (lift (getitem i ''range'')) (\<lambda>r.
     bind (lift (ip_network w r)) (\<lambda>net.
     bind (lift (setitem i ''range'' (VNet net))) (\<lambda>i'.
     ret (if version net = V4 then (fst acc @ [(net, i')], snd acc)
          else (fst acc, snd acc @ [(net, i')])))))"

definition networksort :: "world \<Rightarrow> pyval \<Rightarrow> (network \<times> pyval) list prog" where
  "networksort w data =
     bind (lift (iter_list data)) (\<lambda>items.
     bind (fold_prog items (networksort_step w) ([], [])) (\<lambda>acc.
     ret (sort_key (\<lambda>p. net_key (fst p)) (fst acc) @ sort_key (\<lambda>p. net_key (fst p)) (snd acc))))"

text \<open>
  \<^verbatim>\<open>print_perm\<close>: one line of the listing. The widths of the columns are not modelled;
  a value that a padded field cannot format raises \<^verbatim>\<open>TypeError\<close>.
\<close>

definition pads :: "pyval \<Rightarrow> bool" where
  "pads v = (case v of VStr _ \<Rightarrow> True | VInt _ \<Rightarrow> True | VBool _ \<Rightarrow> True | _ \<Rightarrow> False)"

definition print_perm :: "pyval \<Rightarrow> pyval \<Rightarrow> pyval \<Rightarrow> unit prog" where
  "print_perm range' group' regex' =
     (if pads range' \<and> pads group' then emit (PrintPerm range' group' regex')
      else raise TypeError)"

definition print_row :: "network \<times> pyval \<Rightarrow> unit prog" where
  "print_row p =
     bind (lift (getitem (snd p) ''range'')) (\<lambda>r.
     bind (lift (getitem (snd p) ''group'')) (\<lambda>g.
     bind (lift (getitem (snd p) ''regex'')) (\<lambda>x.
     print_perm (VStr (py_str r)) g x)))"

text \<open>The entries whose range lies inside the range given on the command line.\<close>

definition select_step :: "world \<Rightarrow> network \<Rightarrow> pyval \<Rightarrow> pyval list \<Rightarrow> pyval list prog" where
  "select_step w argnetwork i data =
     bind (lift (getitem i ''range'')) (\<lambda>r.
     bind (lift (ip_network w r)) (\<lambda>permnet.
     if version argnetwork = version permnet
     then bind (lift (getitem i ''range'')) (\<lambda>r2.
          bind (lift (ip_network w r2)) (\<lambda>permnet2.
          ret (if supernet_of argnetwork permnet2 then data @ [i] else data)))
     else ret data))"

text \<open>The list \<^verbatim>\<open>data\<close> that is displayed: all permissions, or those inside \<^verbatim>\<open>args.range\<close>.\<close>

definition listed_data :: "world \<Rightarrow> namespace \<Rightarrow> pyval \<Rightarrow> pyval prog" where
  "listed_data w args permissions =
     (case range_arg args of
        Some r \<Rightarrow>
          bind (lift (ip_network w (VStr r))) (\<lambda>argnetwork.
          bind (lift (iter_list permissions)) (\<lambda>items.
          bind (fold_prog items (select_step w argnetwork) []) (\<lambda>sel.
          ret (VList sel))))
      | None \<Rightarrow> ret permissions)"

definition list_url :: "namespace \<Rightarrow> string" where
  "list_url args =
     (let query = (case group_arg args of None \<Rightarrow> [] | Some g \<Rightarrow> [(''group'', VStr g)]);
          params = (if query \<noteq> [] then py_format ''&{}'' [VStr (urlencode query)] else [])
      in py_format ''/permissions/netgroupregex/?ordering=group{}'' [VStr params])"

definition network_list :: "world \<Rightarrow> namespace \<Rightarrow> unit prog" where
  "network_list w args =
     (bind (get_list w (list_url args)) (\<lambda>permissions.
      bind (listed_data w args permissions) (\<lambda>data.
      if \<not> truthy data then cli_info w ''No permissions found'' (Some True)
      else
        bind (print_perm (VStr ''Range'') (VStr ''Group'') (VStr ''Regex'')) (\<lambda>_.
        bind (networksort w data) (\<lambda>sorted.
        for_each sorted print_row)))))"

definition network_add :: "world \<Rightarrow> namespace \<Rightarrow> unit prog" where
  "network_add w args =
     bind (is_valid_network w (opt_val (range_arg args))) (\<lambda>valid.
     bind (if \<not> truthy valid
           then cli_warning w (py_format ''Invalid range: {}'' [opt_val (range_arg args)]) None
           else ret ()) (\<lambda>_.
     let data = [(''range'', opt_val (range_arg args)),
                 (''group'', opt_val (group_arg args)),
                 (''regex'', opt_val (regex_arg args))];
         path = ''/permissions/netgroupregex/''
     in
     bind (record_get w path [VStr [], VDict data]) (\<lambda>_.
     bind (http_post w path data) (\<lambda>_.
     cli_info w (py_format ''Added permission to {}'' [opt_val (range_arg args)]) (Some True)))))"

definition remove_url :: "namespace \<Rightarrow> string" where
  "remove_url args =
     (let query = [(''group'', opt_val (group_arg args)),
                   (''range'', opt_val (range_arg args)),
                   (''regex'', opt_val (regex_arg args))];
          params = py_format ''{}'' [VStr (urlencode query)]
      in py_format ''/permissions/netgroupregex/?{}'' [VStr params])"

definition network_remove :: "world \<Rightarrow> namespace \<Rightarrow> unit prog" where
  "network_remove w args =
     (bind (get_list w (remove_url args)) (\<lambda>permissions.
      if \<not> truthy permissions then cli_warning w ''No matching permission found'' (Some True)
      else
        bind (lift (py_len permissions)) (\<lambda>n.
        bind (if n = 1 then ret () else raise (AssertionError ''Should only match one permission''))
          (\<lambda>_.
        bind (lift (getindex permissions 0)) (\<lambda>p.
        bind (lift (getitem p ''id'')) (\<lambda>id'.
        let path = py_format ''/permissions/netgroupregex/{}'' [id'] in
        bind (record_delete w path (VDict []) (Some False) None) (\<lambda>_.
        bind (http_delete w path) (\<lambda>_.
        cli_info w (py_format ''Removed permission for {}'' [opt_val (range_arg args)])
          (Some True)))))))))"

section \<open>The Host command\<close>

subsection \<open>Collaborators and small helpers\<close>

text \<open>
  The helpers of the modules \<^verbatim>\<open>util\<close>, \<^verbatim>\<open>config\<close> and \<^verbatim>\<open>log\<close> that the Host handlers call.
  They are not among the sources: each one is a call whose outcome the world decides.
\<close>

definition host_info_by_name_or_ip :: "world \<Rightarrow> pyval \<Rightarrow> pyval prog" where
  "host_info_by_name_or_ip w name_or_ip = call w"

definition host_info_by_name :: "world \<Rightarrow> pyval \<Rightarrow> bool \<Rightarrow> pyval prog" where
  "host_info_by_name w name follow_cnames = call w"

definition aliases_of_host :: "world \<Rightarrow> pyval \<Rightarrow> pyval prog" where
  "aliases_of_host w name = call w"

definition resolve_input_name :: "world \<Rightarrow> pyval \<Rightarrow> pyval prog" where
  "resolve_input_name w name = call w"

definition hinfo_list :: "world \<Rightarrow> pyval prog" where
  "hinfo_list w = call w"

definition print_hinfo_list :: "world \<Rightarrow> pyval \<Rightarrow> unit prog" where
  "print_hinfo_list w hi_list =
     bind (emit (PrintOut ''print_hinfo_list'' [hi_list])) (\<lambda>_. bind (call w) (\<lambda>_. ret ()))"

definition print_srv :: "world \<Rightarrow> pyval \<Rightarrow> nat \<Rightarrow> unit prog" where
  "print_srv w srv padding =
     bind (emit (PrintOut ''print_srv'' [srv, VInt (int padding)])) (\<lambda>_. bind (call w) (\<lambda>_. ret ()))"

definition is_valid_subnet :: "world \<Rightarrow> pyval \<Rightarrow> pyval prog" where
  "is_valid_subnet w v = call w"

definition is_valid_email :: "world \<Rightarrow> pyval \<Rightarrow> pyval prog" where
  "is_valid_email w v = call w"

definition is_valid_ipv4 :: "world \<Rightarrow> pyval \<Rightarrow> pyval prog" where
  "is_valid_ipv4 w v = call w"

definition is_valid_ipv6 :: "world \<Rightarrow> pyval \<Rightarrow> pyval prog" where
  "is_valid_ipv6 w v = call w"

definition is_valid_ttl :: "world \<Rightarrow> pyval \<Rightarrow> pyval prog" where
  "is_valid_ttl w v = call w"

definition is_valid_loc :: "world \<Rightarrow> pyval \<Rightarrow> pyval prog" where
  "is_valid_loc w v = call w"

definition is_longform :: "world \<Rightarrow> pyval \<Rightarrow> pyval prog" where
  "is_longform w name = call w"

definition to_longform :: "world \<Rightarrow> pyval \<Rightarrow> bool \<Rightarrow> pyval prog" where
  "to_longform w name trailing_dot = call w"

definition choose_ip_from_subnet :: "world \<Rightarrow> pyval \<Rightarrow> pyval prog" where
  "choose_ip_from_subnet w subnet = call w"

text \<open>\<^verbatim>\<open>get(url).json()\<close>: the request, then the decoding of the response.\<close>

definition http_get_json :: "world \<Rightarrow> string \<Rightarrow> pyval prog" where
  "http_get_json w url = bind (emit (HttpGet url)) (\<lambda>_. bind (call w) (\<lambda>_. call w))"

text \<open>A format string whose first two fields are \<^verbatim>\<open>conf["server_ip"]\<close> and \<^verbatim>\<open>conf["server_port"]\<close>.\<close>

definition conf_url :: "world \<Rightarrow> string \<Rightarrow> pyval list \<Rightarrow> string" where
  "conf_url w fmt rest = py_format fmt (server_ip w # server_port w # rest)"

definition do_if :: "bool \<Rightarrow> unit prog \<Rightarrow> unit prog" where
  "do_if c m = (if c then m else ret ())"

text \<open>\<^verbatim>\<open>input(prompt) if len(args) < i + 1 else args[i]\<close>.\<close>

definition arg_or_input :: "string list \<Rightarrow> nat \<Rightarrow> string \<Rightarrow> string prog" where
  "arg_or_input args i prompt = (if length args < Suc i then input prompt else ret (args ! i))"

text \<open>\<^verbatim>\<open>"" if flag not in args else args[args.index(flag) + 1]\<close>.\<close>

definition flag_value :: "string list \<Rightarrow> string \<Rightarrow> exc + string" where
  "flag_value args flag =
     (if flag \<notin> set args then Inr []
      else index args (Suc (length (takeWhile (\<lambda>a. a \<noteq> flag) args))))"

text \<open>\<^verbatim>\<open>a or b\<close> on values.\<close>

definition py_or :: "pyval \<Rightarrow> pyval \<Rightarrow> pyval" where
  "py_or a b = (if truthy a then a else b)"

text \<open>\<^verbatim>\<open>" ".join(args[1:])\<close>.\<close>

definition join_rest :: "string list \<Rightarrow> string" where
  "join_rest args = join '' '' (drop 1 args)"

text \<open>
  \<^verbatim>\<open>re.match(r"^.*([.:]0|::)/$", s)\<close>: the text, without one final newline, holds no
  newline and ends with \<^verbatim>\<open>.0/\<close>, \<^verbatim>\<open>:0/\<close> or \<^verbatim>\<open>::/\<close>.
\<close>

definition ends_with :: "string \<Rightarrow> string \<Rightarrow> bool" where
  "ends_with p t = (length p \<le> length t \<and> drop (length t - length p) t = p)"

definition matches_net_slash :: "string \<Rightarrow> bool" where
  "matches_net_slash s =
     (let t = (if s \<noteq> [] \<and> last s = CHR 0x0A then butlast s else s)
      in CHR 0x0A \<notin> set t \<and> (ends_with ''.0/'' t \<or> ends_with '':0/'' t \<or> ends_with ''::/'' t))"

text \<open>
  The loop that looks for an address among the records of a host:
  \<^verbatim>\<open>for rec in info["ipaddress"]: if rec["ipaddress"] == ip: found = True; break\<close>.
\<close>

fun owns_ip :: "pyval list \<Rightarrow> pyval \<Rightarrow> exc + bool" where
  "owns_ip [] ip = Inr False"
| "owns_ip (rec # recs) ip =
     (case getitem rec ''ipaddress'' of
        Inl e \<Rightarrow> Inl e
      | Inr a \<Rightarrow> if a = ip then Inr True else owns_ip recs ip)"

definition ip_found :: "pyval \<Rightarrow> pyval \<Rightarrow> bool prog" where
  "ip_found info ip =
     bind (lift (getitem info ''ipaddress'')) (\<lambda>recs.
     bind (lift (iter_list recs)) (\<lambda>rs.
     lift (owns_ip rs ip)))"

text \<open>\<^verbatim>\<open>v[k1] or v[k2] or ...\<close>: the fields are read until one is true.\<close>

fun any_field :: "pyval \<Rightarrow> string list \<Rightarrow> exc + bool" where
  "any_field v [] = Inr False"
| "any_field v (k # ks) =
     (case getitem v k of
        Inl e \<Rightarrow> Inl e
      | Inr x \<Rightarrow> if truthy x then Inr True else any_field v ks)"

text \<open>\<^verbatim>\<open>name if is_longform(name) else to_longform(name)\<close>.\<close>

definition longform :: "world \<Rightarrow> pyval \<Rightarrow> bool \<Rightarrow> pyval prog" where
  "longform w name trailing_dot =
     bind (is_longform w name) (\<lambda>l.
     if truthy l then ret name else to_longform w name trailing_dot)"

text \<open>
  \<^verbatim>\<open>while hinfo == "?": print_hinfo_list(hi_list); hinfo = input(prompt)\<close>. Every round
  reads a line, so the loop ends with the input.
\<close>

function hinfo_loop :: "world \<Rightarrow> pyval \<Rightarrow> string \<Rightarrow> string \<Rightarrow> string prog" where
  "hinfo_loop w hi_list prompt hinfo s =
     (if hinfo = ''?''
      then (case print_hinfo_list w hi_list s of
              (Inl e, s1) \<Rightarrow> (Inl e, s1)
            | (Inr u, s1) \<Rightarrow>
                (case input prompt s1 of
                   (Inl e, s2) \<Rightarrow> (Inl e, s2)
                 | (Inr h, s2) \<Rightarrow> hinfo_loop w hi_list prompt h s2))
      else (Inr hinfo, s))"
  by pat_completeness auto
termination
  apply (relation "measure (\<lambda>(w, hi_list, prompt, hinfo, s). length (stdin s))")
   apply simp
  apply (auto simp: print_hinfo_list_def bind_def emit_def call_def ret_def input_def
      split: sum.splits list.splits)
  done

subsection \<open>The handlers that record in the history\<close>

text \<open>
  The usual reading of two arguments: what the command line does not give is asked for.
  \<^verbatim>\<open>if len(args) < 2: a = input(p1) if len(args) < 1 else args[0]; b = input(p2)\<close>,
  \<^verbatim>\<open>else: a = args[0]; b = args[1]\<close>.
\<close>

definition two_args :: "string list \<Rightarrow> string \<Rightarrow> string \<Rightarrow> (string \<times> string) prog" where
  "two_args args p1 p2 =
     (if length args < 2
      then bind (arg_or_input args 0 p1) (\<lambda>a. bind (input p2) (\<lambda>b. ret (a, b)))
      else ret (args ! 0, args ! 1))"

text \<open>
  \<^verbatim>\<open>if len(info["ipaddress"]) > 0: info["ipaddress"] = info["ipaddress"][0]["ipaddress"]\<close>:
  the info as the statement leaves it.
\<close>

definition flatten_ipaddress :: "pyval \<Rightarrow> exc + pyval" where
  "flatten_ipaddress info =
     (case getitem info ''ipaddress'' of
        Inl e \<Rightarrow> Inl e
      | Inr ips \<Rightarrow>
          (case py_len ips of
             Inl e \<Rightarrow> Inl e
           | Inr n \<Rightarrow>
               if 0 < n
               then (case getindex ips 0 of
                       Inl e \<Rightarrow> Inl e
                     | Inr first \<Rightarrow>
                         (case getitem first ''ipaddress'' of
                            Inl e \<Rightarrow> Inl e
                          | Inr addr \<Rightarrow> setitem info ''ipaddress'' addr))
               else Inr info))"

text \<open>
  \<^verbatim>\<open>opt_remove\<close>, from the point where the host info is known. The aliases are deleted
  first; then the address list of the info is replaced by its first address, and the
  info is recorded as the old data of the removal.
\<close>

definition remove_host :: "world \<Rightarrow> string list \<Rightarrow> pyval \<Rightarrow> unit prog" where
  "remove_host w args info =
     bind (lift (getitem info ''ipaddress'')) (\<lambda>ips.
     bind (lift (py_len ips)) (\<lambda>n.
     bind (do_if (1 < n \<and> ''y'' \<notin> set args)
             (cli_warning w ''{} has multiple ipaddresses, must force'' None)) (\<lambda>_.
     bind (lift (getitem info ''name'')) (\<lambda>name.
     bind (aliases_of_host w name) (\<lambda>aliases.
     bind (lift (py_len aliases)) (\<lambda>na.
     bind (if na \<noteq> 0
           then (if ''y'' \<notin> set args
                 then bind (lift (getitem info ''name'')) (\<lambda>nm.
                      bind (lift (py_len aliases)) (\<lambda>k.
                      cli_warning w
                        (py_format ''{} has {} aliases, must force'' [nm, VInt (int k)]) None))
                 else bind (lift (iter_list aliases)) (\<lambda>als.
                      for_each als (\<lambda>alias.
                        bind (record_delete w (conf_url w ''http://{}:{}/hosts/{}'' [alias])
                                (VDict []) (Some False) None) (\<lambda>_.
                        bind (http_delete w (conf_url w ''http://{}:{}/hosts/{}'' [alias])) (\<lambda>_.
                        bind (lift (getitem info ''name'')) (\<lambda>nm.
                        cli_info w
                          (py_format ''deleted alias host {} when removing {}'' [alias, nm])
                          None))))))
           else ret ()) (\<lambda>_.
     bind (lift (flatten_ipaddress info)) (\<lambda>info'.
     bind (lift (getitem info' ''name'')) (\<lambda>name'.
     bind (record_delete w (conf_url w ''http://{}:{}/hosts/{}'' [name']) info' None None) (\<lambda>_.
     bind (http_delete w (conf_url w ''http://{}:{}/hosts/{}'' [name'])) (\<lambda>_.
     bind (lift (getitem info' ''name'')) (\<lambda>nm.
     cli_info w (py_format ''removed {}'' [nm]) (Some True)))))))))))))"

definition Host_opt_remove :: "world \<Rightarrow> string list \<Rightarrow> unit prog" where
  "Host_opt_remove w args =
     bind (if length args < 1 then input ''Enter name or ip> '' else ret (args ! 0)) (\<lambda>name_or_ip.
     bind (host_info_by_name_or_ip w (VStr name_or_ip)) (\<lambda>info.
     remove_host w args info))"

text \<open>\<^verbatim>\<open>opt_add\<close>: the reading of the arguments, then the checks, then the creation.\<close>

definition add_args ::
  "world \<Rightarrow> string list \<Rightarrow> pyval \<Rightarrow> (string \<times> string \<times> string \<times> string \<times> string) prog" where
  "add_args w args hi_list =
     (if length args < 3
      then bind (arg_or_input args 0 ''Enter host name> '') (\<lambda>name.
           bind (arg_or_input args 1 ''Enter subnet or ip> '') (\<lambda>ip_or_net.
           bind (input ''Enter contact> '') (\<lambda>contact.
           bind (input ''Enter hinfo (optional)> '') (\<lambda>h0.
           bind (hinfo_loop w hi_list ''Enter hinfo (optional)> '' h0) (\<lambda>hinfo.
           bind (input ''Enter comment (optional)> '') (\<lambda>comment.
           ret (name, ip_or_net, contact, hinfo, comment)))))))
      else bind (lift (flag_value args ''-hinfo'')) (\<lambda>hinfo.
           bind (lift (flag_value args ''-comment'')) (\<lambda>comment.
           ret (args ! 0, args ! 1, args ! 2, hinfo, comment))))"

text \<open>
  \<^verbatim>\<open>if hinfo: hinfo = int(hinfo); if not 0 < hinfo <= len(hi_list): cli_warning(...)\<close>.
  The length is read only when the number is positive.
\<close>

definition checked_hinfo :: "world \<Rightarrow> pyval \<Rightarrow> string \<Rightarrow> string \<Rightarrow> pyval \<Rightarrow> pyval prog" where
  "checked_hinfo w hi_list hinfo msg name =
     (if hinfo \<noteq> []
      then bind (lift (py_int hinfo)) (\<lambda>h.
           bind (if 0 < h then bind (lift (py_len hi_list)) (\<lambda>n. ret (h \<le> int n))
                 else ret False) (\<lambda>in_range.
           bind (do_if (\<not> in_range) (cli_warning w (py_format msg [VInt h, name]) None)) (\<lambda>_.
           ret (VInt h))))
      else ret (VStr hinfo))"

definition Host_opt_add :: "world \<Rightarrow> string list \<Rightarrow> unit prog" where
  "Host_opt_add w args =
     bind (hinfo_list w) (\<lambda>hi_list.
     bind (add_args w args hi_list) (\<lambda>(name, ip_or_net, contact, hinfo_s, comment).
     bind (checked_hinfo w hi_list hinfo_s ''invalid hinfo ({}) when trying to add {}'' (VStr name))
       (\<lambda>hinfo.
     bind (if matches_net_slash ip_or_net then choose_ip_from_subnet w (VStr ip_or_net)
           else bind (is_valid_subnet w (VStr ip_or_net)) (\<lambda>v.
                if truthy v then choose_ip_from_subnet w (VStr ip_or_net)
                else ret (VStr ip_or_net))) (\<lambda>ip.
     bind (is_valid_email w (VStr contact)) (\<lambda>ok.
     bind (do_if (\<not> truthy ok)
             (cli_warning w
                (py_format ''invalid mail address ({}) when trying to add {}''
                   [VStr contact, VStr name]) None)) (\<lambda>_.
     bind (try_except (bind (resolve_input_name w (VStr name)) (\<lambda>n. ret (Some n)))
             is_HostNotFoundWarning (\<lambda>e. ret None)) (\<lambda>found.
     bind (case found of
             None \<Rightarrow> ret (VStr name)
           | Some n \<Rightarrow>
               bind (if ''y'' \<notin> set args
                     then cli_warning w (py_format ''host {} already exists, must force'' [n]) None
                     else bind (record_delete w (conf_url w ''http://{}:{}/hosts/{}'' [n])
                                  (VDict []) (Some False) None) (\<lambda>_.
                          bind (http_delete w (conf_url w ''http://{}:{}/hosts/{}'' [n])) (\<lambda>_.
                          cli_info w (py_format ''deleted existing host {}'' [n]) None)))
                 (\<lambda>_. ret n)) (\<lambda>name1.
     bind (longform w name1 False) (\<lambda>name2.
     bind (record_post w (conf_url w ''http://{}:{}/hosts/'' []) name2
             (VDict [(''name'', name2), (''ipaddress'', ip), (''contact'', VStr contact),
                     (''hinfo'', py_or hinfo VNone), (''comment'', py_or (VStr comment) VNone)])
             None None) (\<lambda>_.
     bind (http_post w (conf_url w ''http://{}:{}/hosts/'' [])
             [(''name'', name2), (''ipaddress'', ip), (''contact'', VStr contact),
              (''hinfo'', py_or hinfo VNone), (''comment'', py_or (VStr comment) VNone)]) (\<lambda>_.
     cli_info w (py_format ''created host {}'' [name2]) (Some True))))))))))))"

definition Host_opt_set_contact :: "world \<Rightarrow> string list \<Rightarrow> unit prog" where
  "Host_opt_set_contact w args =
     bind (two_args args ''Enter host name> '' ''Enter contact> '') (\<lambda>(name, contact).
     bind (is_valid_email w (VStr contact)) (\<lambda>ok.
     bind (do_if (\<not> truthy ok)
             (cli_warning w
                (py_format ''invalid mail address {} (target host: {})'' [VStr contact, VStr name])
                None)) (\<lambda>_.
     bind (host_info_by_name w (VStr name) True) (\<lambda>info.
     bind (lift (getitem info ''contact'')) (\<lambda>c.
     bind (lift (getitem info ''name'')) (\<lambda>nm.
     bind (record_patch w (conf_url w ''http://{}:{}/hosts/{}'' [nm])
             (VDict [(''contact'', VStr contact)]) (VDict [(''contact'', c)]) None None) (\<lambda>_.
     bind (http_patch w (conf_url w ''http://{}:{}/hosts/{}'' [nm]) [(''contact'', VStr contact)])
       (\<lambda>_.
     bind (lift (getitem info ''name'')) (\<lambda>nm2.
     cli_info w (py_format ''Updated contact of {} to {}'' [nm2, VStr contact]) (Some True))))))))))"

definition Host_opt_set_comment :: "world \<Rightarrow> string list \<Rightarrow> unit prog" where
  "Host_opt_set_comment w args =
     bind (if length args < 2
           then bind (arg_or_input args 0 ''Enter host name> '') (\<lambda>a.
                bind (input ''Enter comment> '') (\<lambda>b. ret (a, b)))
           else ret (args ! 0, join_rest args)) (\<lambda>(name, comment).
     bind (host_info_by_name w (VStr name) True) (\<lambda>info.
     bind (lift (getitem info ''comment'')) (\<lambda>c.
     bind (lift (getitem info ''name'')) (\<lambda>nm.
     bind (record_patch w (conf_url w ''http://{}:{}/hosts/{}'' [nm])
             (VDict [(''comment'', VStr comment)]) (VDict [(''comment'', py_or c (VStr []))])
             None None) (\<lambda>_.
     bind (http_patch w (conf_url w ''http://{}:{}/hosts/{}'' [nm]) [(''comment'', VStr comment)])
       (\<lambda>_.
     bind (lift (getitem info ''name'')) (\<lambda>nm2.
     cli_info w (py_format (''updated comment of {} to '' @ [CHR 0x22] @ ''{}'' @ [CHR 0x22])
                [nm2, VStr comment]) (Some True))))))))"

text \<open>
  \<^verbatim>\<open>opt_rename\<close>. A host that has the new name is deleted with its aliases; the rename is
  recorded with both flags off; the CNAME records that point to the old name follow.
\<close>

definition delete_existing :: "world \<Rightarrow> string list \<Rightarrow> pyval \<Rightarrow> pyval \<Rightarrow> pyval \<Rightarrow> unit prog" where
  "delete_existing w args info old_name new_name =
     bind (do_if (''y'' \<notin> set args)
             (bind (lift (getitem info ''name'')) (\<lambda>nm.
              cli_warning w (py_format ''host {} already exists, must force'' [nm]) None))) (\<lambda>_.
     bind (lift (getitem info ''name'')) (\<lambda>nm.
     bind (aliases_of_host w nm) (\<lambda>aliases.
     bind (lift (iter_list aliases)) (\<lambda>als.
     bind (for_each als (\<lambda>alias.
             bind (record_delete w (conf_url w ''http://{}:{}/hosts/{}'' [alias])
                     (VDict []) (Some False) None) (\<lambda>_.
             bind (http_delete w (conf_url w ''http://{}:{}/hosts/{}'' [alias])) (\<lambda>_.
             bind (lift (getitem info ''name'')) (\<lambda>nm2.
             cli_info w
               (py_format ''deleted alias host {} when removing {} before renaming {}''
                  [alias, nm2, old_name]) None))))) (\<lambda>_.
     bind (lift (getitem info ''name'')) (\<lambda>nm3.
     bind (record_delete w (conf_url w ''http://{}:{}/hosts/{}'' [nm3])
             (VDict []) (Some False) None) (\<lambda>_.
     bind (http_delete w (conf_url w ''http://{}:{}/hosts/{}'' [nm3])) (\<lambda>_.
     cli_info w (py_format ''deleted existing host {}'' [new_name]) None))))))))"

definition Host_opt_rename :: "world \<Rightarrow> string list \<Rightarrow> unit prog" where
  "Host_opt_rename w args =
     bind (two_args args ''Enter old name> '' ''Enter new name> '') (\<lambda>(old_name0, new_name0).
     bind (resolve_input_name w (VStr old_name0)) (\<lambda>old_name.
     bind (try_except (bind (host_info_by_name w (VStr new_name0) False) (\<lambda>i. ret (Some i)))
             is_HostNotFoundWarning (\<lambda>e. ret None)) (\<lambda>found.
     bind (case found of
             None \<Rightarrow> ret ()
           | Some info \<Rightarrow> delete_existing w args info old_name (VStr new_name0)) (\<lambda>_.
     bind (longform w (VStr new_name0) False) (\<lambda>new_name.
     bind (record_patch w (conf_url w ''http://{}:{}/hosts/{}'' [old_name])
             (VDict [(''name'', new_name)]) (VDict [(''name'', old_name)])
             (Some False) (Some False)) (\<lambda>_.
     bind (http_patch w (conf_url w ''http://{}:{}/hosts/{}'' [old_name]) [(''name'', new_name)])
       (\<lambda>_.
     bind (cli_info w (py_format ''renamed {} to {}'' [old_name, new_name]) (Some True)) (\<lambda>_.
     bind (record_get w (conf_url w ''http://{}:{}/cnames/?cname={}'' [old_name]) []) (\<lambda>_.
     bind (http_get_json w (conf_url w ''http://{}:{}/cnames/?cname={}'' [old_name])) (\<lambda>cnames.
     bind (lift (iter_list cnames)) (\<lambda>cs.
     for_each cs (\<lambda>cname.
       bind (lift (getitem cname ''id'')) (\<lambda>cid.
       bind (record_patch w (conf_url w ''http://{}:{}/cnames/{}'' [cid])
               (VDict [(''cname'', new_name)]) (VDict [(''cname'', old_name)]) None None) (\<lambda>_.
       http_patch w (conf_url w ''http://{}:{}/cnames/{}'' [cid]) [(''cname'', new_name)]))))))))))))))"

text \<open>
  A local variable that a branch may leave unbound is an option; reading it unbound raises
  \<^verbatim>\<open>UnboundLocalError\<close>.
\<close>

definition read_local :: "string \<Rightarrow> pyval option \<Rightarrow> pyval prog" where
  "read_local name v =
     (case v of
        None \<Rightarrow> raise (UnboundLocalError name)
      | Some x \<Rightarrow> ret x)"

definition Host_opt_a_add :: "world \<Rightarrow> string list \<Rightarrow> unit prog" where
  "Host_opt_a_add w args =
     bind (two_args args ''Enter host name> '' ''Enter ip/subnet> '') (\<lambda>(name, ip_or_subnet).
     bind (host_info_by_name w (VStr name) True) (\<lambda>info.
     bind (bind (is_valid_ipv4 w (VStr ip_or_subnet)) (\<lambda>v4.
           if truthy v4 then ret (Some (VStr ip_or_subnet))
           else bind (is_valid_subnet w (VStr ip_or_subnet)) (\<lambda>sub.
                if truthy sub
                then bind (cli_warning w ''subnets not implemented'' None) (\<lambda>_.
                     bind (choose_ip_from_subnet w (VStr ip_or_subnet)) (\<lambda>c. ret (Some c)))
                else bind (lift (getitem info ''name'')) (\<lambda>nm.
                     bind (cli_warning w
                             (py_format (''invalid ipv4 nor subnet: '' @ [CHR 0x22] @ ''{}''
                                         @ [CHR 0x22] @ '' (target host: {})'')
                                [VStr ip_or_subnet, nm]) None) (\<lambda>_.
                     ret None))))) (\<lambda>ip_opt.
     bind (lift (getitem info ''hostid'')) (\<lambda>hostid.
     bind (read_local ''ip'' ip_opt) (\<lambda>ip.
     bind (record_post w (conf_url w ''http://{}:{}/ipaddresses/'' []) ip
             (VDict [(''hostid'', hostid), (''ipaddress'', ip)]) None None) (\<lambda>_.
     bind (http_post w (conf_url w ''http://{}:{}/ipaddresses/'' [])
             [(''hostid'', hostid), (''ipaddress'', ip)]) (\<lambda>_.
     bind (lift (getitem info ''name'')) (\<lambda>nm.
     cli_info w (py_format ''added ip {} to {}'' [ip, nm]) (Some True)))))))))"

text \<open>
  The check that an address belongs to the host, with its warning:
  the loop sets \<^verbatim>\<open>found\<close>, and \<^verbatim>\<open>if not found: cli_warning(msg.format(ip, info["name"]))\<close>.
\<close>

definition check_owned :: "world \<Rightarrow> pyval \<Rightarrow> string \<Rightarrow> string \<Rightarrow> unit prog" where
  "check_owned w info ip msg =
     bind (ip_found info (VStr ip)) (\<lambda>found.
     do_if (\<not> found)
       (bind (lift (getitem info ''name'')) (\<lambda>nm.
        cli_warning w (py_format msg [VStr ip, nm]) None)))"

definition Host_opt_a_remove :: "world \<Rightarrow> string list \<Rightarrow> unit prog" where
  "Host_opt_a_remove w args =
     bind (two_args args ''Enter host name> '' ''Enter ip> '') (\<lambda>(name, ip).
     bind (is_valid_ipv4 w (VStr ip)) (\<lambda>v4.
     bind (do_if (\<not> truthy v4)
             (cli_warning w
                (py_format (''not a valid ipv4: '' @ [CHR 0x22] @ ''{}'' @ [CHR 0x22]) [VStr ip])
                None)) (\<lambda>_.
     bind (host_info_by_name w (VStr name) True) (\<lambda>info.
     bind (check_owned w info ip ''{} is not owned by {}'') (\<lambda>_.
     bind (lift (getitem info ''hostid'')) (\<lambda>hostid.
     bind (record_delete w (conf_url w ''http://{}:{}/ipaddresses/{}'' [VStr ip])
             (VDict [(''hostid'', hostid), (''ipaddress'', VStr ip)]) None None) (\<lambda>_.
     bind (http_delete w (conf_url w ''http://{}:{}/ipaddresses/{}'' [VStr ip])) (\<lambda>_.
     bind (lift (getitem info ''name'')) (\<lambda>nm.
     cli_info w (py_format ''removed ip {} from {}'' [VStr ip, nm]) (Some True))))))))))"

text \<open>The usual reading of three arguments.\<close>

definition three_args ::
  "string list \<Rightarrow> string \<Rightarrow> string \<Rightarrow> string \<Rightarrow> (string \<times> string \<times> string) prog" where
  "three_args args p1 p2 p3 =
     (if length args < 3
      then bind (arg_or_input args 0 p1) (\<lambda>a.
           bind (arg_or_input args 1 p2) (\<lambda>b.
           bind (input p3) (\<lambda>c. ret (a, b, c))))
      else ret (args ! 0, args ! 1, args ! 2))"

definition Host_opt_a_change :: "world \<Rightarrow> string list \<Rightarrow> unit prog" where
  "Host_opt_a_change w args =
     bind (three_args args ''Enter host name> '' ''Enter old ip> '' ''Enter new ip/subnet> '')
       (\<lambda>(name, old_ip, ip_or_subnet).
     bind (bind (is_valid_ipv4 w (VStr old_ip)) (\<lambda>v.
           if \<not> truthy v
           then cli_warning w
                  (py_format (''invalid ipv4 '' @ [CHR 0x22] @ ''{}'' @ [CHR 0x22]
                              @ '' (target host {})'') [VStr old_ip, VStr name]) None
           else bind (is_valid_ipv4 w (VStr ip_or_subnet)) (\<lambda>v4.
                if truthy v4 then ret ()
                else bind (is_valid_subnet w (VStr ip_or_subnet)) (\<lambda>sub.
                     do_if (\<not> truthy sub)
                       (cli_warning w
                          (py_format (''invalid ipv4 nor subnet '' @ [CHR 0x22] @ ''{}''
                                      @ [CHR 0x22] @ '' (target host {})'')
                             [VStr ip_or_subnet, VStr name]) None))))) (\<lambda>_.
     bind (host_info_by_name w (VStr name) True) (\<lambda>info.
     bind (check_owned w info old_ip ''{} is not owned by {}'') (\<lambda>_.
     bind (bind (is_valid_ipv4 w (VStr ip_or_subnet)) (\<lambda>v4.
           if truthy v4 then ret (VStr ip_or_subnet)
           else bind (cli_warning w ''subnets not implemented'' None) (\<lambda>_.
                choose_ip_from_subnet w (VStr ip_or_subnet)))) (\<lambda>ip.
     bind (record_patch w (conf_url w ''http://{}:{}/ipaddresses/{}'' [VStr old_ip])
             (VDict [(''ipaddress'', ip)]) (VDict [(''ipaddress'', VStr old_ip)])
             (Some False) (Some False)) (\<lambda>_.
     bind (http_patch w (conf_url w ''http://{}:{}/ipaddresses/{}'' [VStr old_ip])
             [(''ipaddress'', ip)]) (\<lambda>_.
     bind (lift (getitem info ''name'')) (\<lambda>nm.
     cli_info w (py_format ''updated ip {} to {} for {}'' [VStr old_ip, ip, nm]) (Some True)))))))))"

definition Host_opt_aaaa_add :: "world \<Rightarrow> string list \<Rightarrow> unit prog" where
  "Host_opt_aaaa_add w args =
     bind (two_args args ''Enter host name> '' ''Enter ipv6> '') (\<lambda>(name, ip).
     bind (host_info_by_name w (VStr name) True) (\<lambda>info.
     bind (is_valid_ipv6 w (VStr ip)) (\<lambda>v6.
     bind (do_if (\<not> truthy v6)
             (bind (lift (getitem info ''name'')) (\<lambda>nm.
              cli_warning w
                (py_format (''not a valid ipv6 '' @ [CHR 0x22] @ ''{}'' @ [CHR 0x22]
                            @ '' (target host {})'') [VStr ip, nm]) None))) (\<lambda>_.
     bind (lift (getitem info ''hostid'')) (\<lambda>hostid.
     bind (record_post w (conf_url w ''http://{}:{}/ipaddresses/'' []) (VStr ip)
             (VDict [(''hostid'', hostid), (''ipaddress'', VStr ip)]) None None) (\<lambda>_.
     bind (http_post w (conf_url w ''http://{}:{}/ipaddresses/'' [])
             [(''hostid'', hostid), (''ipaddress'', VStr ip)]) (\<lambda>_.
     bind (lift (getitem info ''name'')) (\<lambda>nm.
     cli_info w (py_format ''added ip {} to {}'' [VStr ip, nm]) (Some True)))))))))"

definition Host_opt_aaaa_remove :: "world \<Rightarrow> string list \<Rightarrow> unit prog" where
  "Host_opt_aaaa_remove w args =
     bind (two_args args ''Enter host name> '' ''Enter ipv6> '') (\<lambda>(name, ip).
     bind (host_info_by_name w (VStr name) True) (\<lambda>info.
     bind (is_valid_ipv6 w (VStr ip)) (\<lambda>v6.
     bind (do_if (\<not> truthy v6)
             (bind (lift (getitem info ''name'')) (\<lambda>nm.
              cli_warning w
                (py_format (''not a valid ipv6 '' @ [CHR 0x22] @ ''{}'' @ [CHR 0x22]
                            @ '' (target host {})'') [VStr ip, nm]) None))) (\<lambda>_.
     bind (check_owned w info ip ''{} is not owned by {}'') (\<lambda>_.
     bind (lift (getitem info ''hostid'')) (\<lambda>hostid.
     bind (record_delete w (conf_url w ''http://{}:{}/ipaddresses/{}'' [VStr ip])
             (VDict [(''hostid'', hostid), (''ipaddress'', VStr ip)]) None None) (\<lambda>_.
     bind (http_delete w (conf_url w ''http://{}:{}/ipaddresses/{}'' [VStr ip])) (\<lambda>_.
     bind (lift (getitem info ''name'')) (\<lambda>nm.
     cli_info w (py_format ''removed {} from {}'' [VStr ip, nm]) (Some True))))))))))"

definition Host_opt_aaaa_change :: "world \<Rightarrow> string list \<Rightarrow> unit prog" where
  "Host_opt_aaaa_change w args =
     bind (three_args args ''Enter host name> '' ''Enter old ipv6> '' ''Enter new ipv6> '')
       (\<lambda>(name, old_ip, new_ip).
     bind (host_info_by_name w (VStr name) True) (\<lambda>info.
     bind (bind (is_valid_ipv6 w (VStr old_ip)) (\<lambda>v.
           if \<not> truthy v
           then bind (lift (getitem info ''name'')) (\<lambda>nm.
                cli_warning w
                  (py_format (''not a valid ipv6 '' @ [CHR 0x22] @ ''{}'' @ [CHR 0x22]
                              @ '' (target host {})'') [VStr old_ip, nm]) None)
           else bind (is_valid_ipv6 w (VStr new_ip)) (\<lambda>v'.
                do_if (\<not> truthy v')
                  (bind (lift (getitem info ''name'')) (\<lambda>nm.
                   cli_warning w
                     (py_format (''not a valid ipv6 '' @ [CHR 0x22] @ ''{}'' @ [CHR 0x22]
                                 @ '' (target host {})'') [VStr new_ip, nm]) None))))) (\<lambda>_.
     bind (check_owned w info old_ip
             ([CHR 0x22] @ ''{}'' @ [CHR 0x22] @ '' is not owned by {}'')) (\<lambda>_.
     bind (record_patch w (conf_url w ''http://{}:{}/ipaddresses/{}'' [VStr old_ip])
             (VDict [(''ipaddress'', VStr new_ip)]) (VDict [(''ipaddress'', VStr old_ip)])
             (Some False) (Some False)) (\<lambda>_.
     bind (http_patch w (conf_url w ''http://{}:{}/ipaddresses/{}'' [VStr old_ip])
             [(''ipaddress'', VStr new_ip)]) (\<lambda>_.
     bind (lift (getitem info ''name'')) (\<lambda>nm.
     cli_info w (py_format ''changed ip {} to {} for {}'' [VStr old_ip, VStr new_ip, nm])
       (Some True))))))))"

text \<open>
  \<^verbatim>\<open>opt_ttl_set\<close>: the old value is \<^verbatim>\<open>info["ttl"] or -1\<close>, the new one is the argument, or
  \<^verbatim>\<open>-1\<close> for \<^verbatim>\<open>"default"\<close>.
\<close>

definition Host_opt_ttl_set :: "world \<Rightarrow> string list \<Rightarrow> unit prog" where
  "Host_opt_ttl_set w args =
     bind (two_args args ''Enter host name> '' ''Enter ttl> '') (\<lambda>(name, ttl).
     bind (host_info_by_name w (VStr name) True) (\<lambda>info.
     bind (is_valid_ttl w (VStr ttl)) (\<lambda>v.
     bind (do_if (\<not> truthy v)
             (bind (lift (getitem info ''name'')) (\<lambda>nm.
              cli_warning w
                (py_format ''invalid TTL value: {} (target host {})'' [VStr ttl, nm]) None))) (\<lambda>_.
     bind (lift (getitem info ''ttl'')) (\<lambda>old_ttl.
     bind (lift (getitem info ''name'')) (\<lambda>nm.
     bind (record_patch w (conf_url w ''http://{}:{}/hosts/{}'' [nm])
             (VDict [(''ttl'', if ttl \<noteq> ''default'' then VStr ttl else VInt (- 1))])
             (VDict [(''ttl'', py_or old_ttl (VInt (- 1)))]) None None) (\<lambda>_.
     bind (http_patch w (conf_url w ''http://{}:{}/hosts/{}'' [nm])
             [(''ttl'', if ttl \<noteq> ''default'' then VStr ttl else VInt (- 1))]) (\<lambda>_.
     bind (lift (getitem info ''name'')) (\<lambda>nm2.
     cli_info w (py_format ''updated TTL for {}'' [nm2]) (Some True))))))))))"

definition Host_opt_ttl_remove :: "world \<Rightarrow> string list \<Rightarrow> unit prog" where
  "Host_opt_ttl_remove w args =
     bind (arg_or_input args 0 ''Enter host name> '') (\<lambda>name.
     bind (host_info_by_name w (VStr name) True) (\<lambda>info.
     bind (lift (getitem info ''ttl'')) (\<lambda>old_ttl.
     bind (lift (getitem info ''name'')) (\<lambda>nm.
     bind (record_patch w (conf_url w ''http://{}:{}/hosts/{}'' [nm])
             (VDict [(''ttl'', VInt (- 1))]) (VDict [(''ttl'', old_ttl)]) None None) (\<lambda>_.
     bind (http_patch w (conf_url w ''http://{}:{}/hosts/{}'' [nm]) [(''ttl'', VInt (- 1))]) (\<lambda>_.
     bind (lift (getitem info ''name'')) (\<lambda>nm2.
     cli_info w (py_format ''removed TTL for {}'' [nm2]) (Some True))))))))"

text \<open>
  \<^verbatim>\<open>opt_cname_add\<close>. The alias host is created when it does not exist; the record of the
  CNAME itself is made with an empty payload and both flags off.
\<close>

definition Host_opt_cname_add :: "world \<Rightarrow> string list \<Rightarrow> unit prog" where
  "Host_opt_cname_add w args =
     bind (two_args args ''Enter name> '' ''Enter alias> '') (\<lambda>(name, alias0).
     bind (host_info_by_name w (VStr name) True) (\<lambda>host_info.
     bind (try_except (bind (host_info_by_name w (VStr alias0) True) (\<lambda>i. ret (Some i)))
             is_HostNotFoundWarning (\<lambda>e. ret None)) (\<lambda>found.
     bind (case found of
             None \<Rightarrow> ret VNone
           | Some alias_info \<Rightarrow>
               bind (lift (any_field alias_info [''hinfo'', ''loc'', ''cname'', ''ipaddress'', ''txt'']))
                 (\<lambda>has_records.
               bind (do_if has_records
                       (bind (lift (getitem alias_info ''name'')) (\<lambda>nm.
                        cli_warning w
                          (py_format ''host {} already exists and has record(s)'' [nm]) None)))
                 (\<lambda>_.
               ret alias_info))) (\<lambda>alias_info0.
     bind (if \<not> truthy alias_info0
           then bind (longform w (VStr alias0) False) (\<lambda>alias.
                bind (lift (getitem host_info ''contact'')) (\<lambda>contact.
                bind (record_post w (conf_url w ''http://{}:{}/hosts/'' []) alias
                        (VDict [(''name'', alias), (''contact'', contact)]) None None) (\<lambda>_.
                bind (http_post w (conf_url w ''http://{}:{}/hosts/'' [])
                        [(''name'', alias), (''contact'', contact)]) (\<lambda>_.
                host_info_by_name w alias True))))
           else ret alias_info0) (\<lambda>alias_info.
     bind (record_post w (conf_url w ''http://{}:{}/cnames/'' []) (VStr []) (VDict [])
             (Some False) (Some False)) (\<lambda>_.
     bind (lift (getitem alias_info ''hostid'')) (\<lambda>hostid.
     bind (lift (getitem host_info ''name'')) (\<lambda>hname.
     bind (http_post w (conf_url w ''http://{}:{}/cnames/'' [])
             [(''hostid'', hostid), (''cname'', hname)]) (\<lambda>_.
     bind (lift (getitem alias_info ''name'')) (\<lambda>aname.
     bind (lift (getitem host_info ''name'')) (\<lambda>hname2.
     cli_info w (py_format ''Added cname alias {} for {}'' [aname, hname2]) (Some True))))))))))))"

definition Host_opt_cname_remove :: "world \<Rightarrow> string list \<Rightarrow> unit prog" where
  "Host_opt_cname_remove w args =
     bind (two_args args ''Enter name> '' ''Enter alias> '') (\<lambda>(name, alias).
     bind (resolve_input_name w (VStr name)) (\<lambda>host_name.
     bind (host_info_by_name w (VStr alias) False) (\<lambda>alias_info.
     bind (lift (getitem alias_info ''cname'')) (\<lambda>cnames.
     bind (lift (py_len cnames)) (\<lambda>n.
     bind (do_if (n < 1)
             (bind (lift (getitem alias_info ''name'')) (\<lambda>nm.
              cli_warning w
                (py_format ([CHR 0x22] @ ''{}'' @ [CHR 0x22] @ '' doesn't have any CNAME records.'')
                   [nm]) None))) (\<lambda>_.
     bind (lift (getindex cnames 0)) (\<lambda>first.
     bind (lift (getitem first ''cname'')) (\<lambda>target.
     bind (do_if (target \<noteq> host_name)
             (bind (lift (getitem alias_info ''name'')) (\<lambda>nm.
              cli_warning w
                (py_format ([CHR 0x22] @ ''{}'' @ [CHR 0x22] @ '' is not an alias for ''
                            @ [CHR 0x22] @ ''{}'' @ [CHR 0x22]) [nm, host_name]) None))) (\<lambda>_.
     bind (lift (getitem alias_info ''name'')) (\<lambda>aname.
     bind (record_delete w (conf_url w ''http://{}:{}/hosts/{}'' [aname]) (VDict [])
             (Some False) None) (\<lambda>_.
     bind (http_delete w (conf_url w ''http://{}:{}/hosts/{}'' [aname])) (\<lambda>_.
     bind (lift (getitem alias_info ''name'')) (\<lambda>aname2.
     cli_info w (py_format ''Removed cname alias {} for {}'' [aname2, host_name])
       (Some True))))))))))))))"

definition Host_opt_loc_set :: "world \<Rightarrow> string list \<Rightarrow> unit prog" where
  "Host_opt_loc_set w args =
     bind (if length args < 2
           then bind (arg_or_input args 0 ''Enter host name> '') (\<lambda>a.
                bind (input ''Enter loc> '') (\<lambda>b. ret (a, b)))
           else ret (args ! 0, join_rest args)) (\<lambda>(name, loc).
     bind (host_info_by_name w (VStr name) True) (\<lambda>info.
     bind (is_valid_loc w (VStr loc)) (\<lambda>v.
     bind (do_if (\<not> truthy v)
             (bind (lift (getitem info ''name'')) (\<lambda>nm.
              cli_warning w
                (py_format (''invalid LOC '' @ [CHR 0x22] @ ''{}'' @ [CHR 0x22]
                            @ '' (target host {})'') [VStr loc, nm]) None))) (\<lambda>_.
     bind (lift (getitem info ''loc'')) (\<lambda>old_loc.
     bind (lift (getitem info ''name'')) (\<lambda>nm.
     bind (record_patch w (conf_url w ''http://{}:{}/hosts/{}'' [nm])
             (VDict [(''loc'', VStr loc)]) (VDict [(''loc'', py_or old_loc (VStr []))])
             None None) (\<lambda>_.
     bind (http_patch w (conf_url w ''http://{}:{}/hosts/{}'' [nm]) [(''loc'', VStr loc)]) (\<lambda>_.
     bind (lift (getitem info ''name'')) (\<lambda>nm2.
     cli_info w (py_format ''updated LOC to {} for {}'' [VStr loc, nm2]) (Some True))))))))))"

definition Host_opt_loc_remove :: "world \<Rightarrow> string list \<Rightarrow> unit prog" where
  "Host_opt_loc_remove w args =
     bind (arg_or_input args 0 ''Enter host name> '') (\<lambda>name.
     bind (host_info_by_name w (VStr name) True) (\<lambda>info.
     bind (lift (getitem info ''loc'')) (\<lambda>old_loc.
     bind (lift (getitem info ''name'')) (\<lambda>nm.
     bind (record_patch w (conf_url w ''http://{}:{}/hosts/{}'' [nm])
             (VDict [(''loc'', VStr [])]) (VDict [(''loc'', old_loc)]) None None) (\<lambda>_.
     bind (http_patch w (conf_url w ''http://{}:{}/hosts/{}'' [nm]) [(''loc'', VStr [])]) (\<lambda>_.
     bind (lift (getitem info ''name'')) (\<lambda>nm2.
     cli_info w (py_format ''removed LOC for {}'' [nm2]) (Some True))))))))"

definition Host_opt_hinfo_set :: "world \<Rightarrow> string list \<Rightarrow> unit prog" where
  "Host_opt_hinfo_set w args =
     bind (hinfo_list w) (\<lambda>hi_list.
     bind (if length args < 2
           then bind (arg_or_input args 0 ''Enter host name> '') (\<lambda>a.
                bind (input ''Enter hinfo> '') (\<lambda>h0.
                bind (hinfo_loop w hi_list ''Enter hinfo> '' h0) (\<lambda>h. ret (a, h))))
           else ret (args ! 0, args ! 1)) (\<lambda>(name, hinfo_s).
     bind (lift (py_int hinfo_s)) (\<lambda>hinfo.
     bind (if 0 < hinfo then bind (lift (py_len hi_list)) (\<lambda>n. ret (hinfo \<le> int n))
           else ret False) (\<lambda>in_range.
     bind (do_if (\<not> in_range) (cli_warning w ''invalid hinfo.'' None)) (\<lambda>_.
     bind (host_info_by_name w (VStr name) True) (\<lambda>info.
     bind (lift (getitem info ''hinfo'')) (\<lambda>old_hinfo.
     bind (lift (getitem info ''name'')) (\<lambda>nm.
     bind (record_patch w (conf_url w ''http://{}:{}/hosts/{}'' [nm])
             (VDict [(''hinfo'', VInt hinfo)]) (VDict [(''hinfo'', py_or old_hinfo (VInt (- 1)))])
             None None) (\<lambda>_.
     bind (http_patch w (conf_url w ''http://{}:{}/hosts/{}'' [nm]) [(''hinfo'', VInt hinfo)]) (\<lambda>_.
     bind (lift (getitem info ''name'')) (\<lambda>nm2.
     cli_info w (py_format ''updated hinfo to {} for {}'' [VInt hinfo, nm2]) (Some True))))))))))))"

definition Host_opt_hinfo_remove :: "world \<Rightarrow> string list \<Rightarrow> unit prog" where
  "Host_opt_hinfo_remove w args =
     bind (arg_or_input args 0 ''Enter host name> '') (\<lambda>name.
     bind (host_info_by_name w (VStr name) True) (\<lambda>info.
     bind (lift (getitem info ''hinfo'')) (\<lambda>old_hinfo.
     bind (lift (getitem info ''name'')) (\<lambda>nm.
     bind (record_patch w (conf_url w ''http://{}:{}/hosts/{}'' [nm])
             (VDict [(''hinfo'', VInt (- 1))]) (VDict [(''hinfo'', old_hinfo)]) None None) (\<lambda>_.
     bind (http_patch w (conf_url w ''http://{}:{}/hosts/{}'' [nm]) [(''hinfo'', VInt (- 1))])
       (\<lambda>_.
     bind (lift (getitem info ''name'')) (\<lambda>nm2.
     cli_info w (py_format ''removed hinfo for {}'' [nm2]) (Some True))))))))"

text \<open>The reading of the five arguments of \<^verbatim>\<open>srv_add\<close>.\<close>

definition srv_args ::
  "string list \<Rightarrow> (string \<times> string \<times> string \<times> string \<times> string) prog" where
  "srv_args args =
     (if length args < 5
      then bind (arg_or_input args 0 ''Enter service name> '') (\<lambda>sname.
           bind (arg_or_input args 1 ''Enter priority> '') (\<lambda>pri.
           bind (arg_or_input args 2 ''Enter weight> '') (\<lambda>weight.
           bind (arg_or_input args 3 ''Enter port> '') (\<lambda>port.
           bind (input ''Enter target name> '') (\<lambda>name.
           ret (sname, pri, weight, port, name))))))
      else ret (args ! 0, args ! 1, args ! 2, args ! 3, args ! 4))"

definition Host_opt_srv_add :: "world \<Rightarrow> string list \<Rightarrow> unit prog" where
  "Host_opt_srv_add w args =
     bind (srv_args args) (\<lambda>(sname0, pri, weight, port, name).
     bind (try_except (resolve_input_name w (VStr name)) is_HostNotFoundWarning
             (\<lambda>e. bind (do_if (''y'' \<notin> set args)
                           (cli_warning w ''{} doesn't exist. Must force'' None)) (\<lambda>_.
                   ret (VStr name)))) (\<lambda>host_name.
     bind (longform w (VStr sname0) True) (\<lambda>sname.
     bind (record_get w (conf_url w ''http://{}:{}/srvs/?service={}'' [sname]) []) (\<lambda>_.
     bind (http_get_json w (conf_url w ''http://{}:{}/srvs/?service={}'' [sname])) (\<lambda>srvs.
     bind (lift (py_len srvs)) (\<lambda>n.
     bind (record_post w (conf_url w ''http://{}:{}/srvs/'' []) (VStr [])
             (VDict [(''service'', sname), (''priority'', VStr pri), (''weight'', VStr weight),
                     (''port'', VStr port), (''target'', host_name)])
             (Some False) None) (\<lambda>_.
     bind (http_post w (conf_url w ''http://{}:{}/srvs/'' [])
             [(''service'', sname), (''priority'', VStr pri), (''weight'', VStr weight),
              (''port'', VStr port), (''target'', host_name)]) (\<lambda>_.
     if 0 < n
     then cli_info w
            (py_format ''Added SRV record {} with target {} to existing entry.'' [sname, host_name])
            (Some True)
     else cli_info w (py_format ''Added SRV record {} with target {}'' [sname, host_name])
            (Some True)))))))))"

text \<open>The body of the loop of \<^verbatim>\<open>opt_srv_remove\<close>, for one entry.\<close>

definition remove_srv :: "world \<Rightarrow> pyval \<Rightarrow> unit prog" where
  "remove_srv w srv =
     bind (do_if (\<not> is_dict srv) (raise (AssertionError []))) (\<lambda>_.
     bind (lift (getitem srv ''srvid'')) (\<lambda>srvid.
     bind (record_delete w (conf_url w ''http://{}:{}/srvs/{}'' [srvid]) srv None (Some False))
       (\<lambda>_.
     bind (http_delete w (conf_url w ''http://{}:{}/srvs/{}'' [srvid])) (\<lambda>_.
     bind (lift (getitem srv ''service'')) (\<lambda>service.
     bind (lift (getitem srv ''target'')) (\<lambda>target.
     cli_info w (py_format ''removed SRV record {} with target {}'' [service, target])
       (Some True)))))))"

definition Host_opt_srv_remove :: "world \<Rightarrow> string list \<Rightarrow> unit prog" where
  "Host_opt_srv_remove w args =
     bind (arg_or_input args 0 ''Enter service name> '') (\<lambda>sname0.
     bind (longform w (VStr sname0) True) (\<lambda>sname.
     bind (record_get w (conf_url w ''http://{}:{}/srvs/?service={}'' [sname]) []) (\<lambda>_.
     bind (http_get_json w (conf_url w ''http://{}:{}/srvs/?service={}'' [sname])) (\<lambda>srvs.
     bind (lift (py_len srvs)) (\<lambda>n.
     bind (if n = 0 then cli_warning w (py_format ''not service named {}'' [sname]) None
           else do_if (1 < n \<and> ''y'' \<notin> set args)
                  (cli_warning w (py_format ''multiple services named {}, must force'' [sname])
                     None)) (\<lambda>_.
     bind (lift (iter_list srvs)) (\<lambda>items.
     for_each items (remove_srv w))))))))"

text \<open>
  \<^verbatim>\<open>opt_srv_show\<close>. The listing is \<^verbatim>\<open>sorted(srvs, key=lambda k: k["service"])\<close>: the key of
  every entry is read first, and the first failure is raised. A list of fewer than two
  entries needs no comparison. Keys that are all strings are sorted by code points, equal
  keys staying in their order. For other keys the world gives the answer of the sort.
\<close>

definition service_name :: "pyval \<Rightarrow> string option" where
  "service_name srv =
     (case getitem srv ''service'' of Inr (VStr s) \<Rightarrow> Some s | _ \<Rightarrow> None)"

definition sorted_by_service :: "world \<Rightarrow> pyval list \<Rightarrow> exc + pyval list" where
  "sorted_by_service w srvs =
     (case filter (\<lambda>srv. case getitem srv ''service'' of Inl e \<Rightarrow> True | Inr v \<Rightarrow> False) srvs of
        bad # _ \<Rightarrow> (case getitem bad ''service'' of Inl e \<Rightarrow> Inl e | Inr v \<Rightarrow> Inr srvs)
      | [] \<Rightarrow>
          if length srvs < 2 then Inr srvs
          else if list_all (\<lambda>srv. service_name srv \<noteq> None) srvs
          then Inr (sort_key (\<lambda>srv. case service_name srv of Some s \<Rightarrow> s | None \<Rightarrow> []) srvs)
          else sorted_by w ''service'' srvs)"

definition show_srv :: "world \<Rightarrow> nat \<Rightarrow> pyval \<Rightarrow> pyval \<Rightarrow> pyval prog" where
  "show_srv w padding srv prev_name =
     bind (lift (getitem srv ''service'')) (\<lambda>service.
     if prev_name = service
     then bind (lift (setitem srv ''service'' (VStr []))) (\<lambda>srv'.
          bind (print_srv w srv' padding) (\<lambda>_. ret prev_name))
     else bind (print_srv w srv padding) (\<lambda>_. ret service))"

definition Host_opt_srv_show :: "world \<Rightarrow> string list \<Rightarrow> unit prog" where
  "Host_opt_srv_show w args =
     bind (arg_or_input args 0 ''Enter service name> '') (\<lambda>sname.
     bind (record_get w (conf_url w ''http://{}:{}/srvs/?service__contains={}'' [VStr sname]) [])
       (\<lambda>_.
     bind (http_get_json w (conf_url w ''http://{}:{}/srvs/?service__contains={}'' [VStr sname]))
       (\<lambda>srvs.
     bind (lift (py_len srvs)) (\<lambda>n.
     bind (do_if (n < 1) (cli_warning w (py_format ''no service matching {}'' [VStr sname]) None))
       (\<lambda>_.
     bind (lift (iter_list srvs)) (\<lambda>items.
     bind (fold_prog items
             (\<lambda>srv padding.
                bind (lift (getitem srv ''service'')) (\<lambda>service.
                bind (lift (py_len service)) (\<lambda>l. ret (max padding l)))) 0) (\<lambda>padding.
     bind (lift (sorted_by_service w items)) (\<lambda>ordered.
     bind (fold_prog ordered (show_srv w padding) (VStr [])) (\<lambda>_.
     cli_info w (py_format ''showed entries for SRV {}'' [VStr sname]) None)))))))))"

subsection \<open>The handlers that only display\<close>

text \<open>
  The printing helpers of \<^verbatim>\<open>util\<close> (\<^verbatim>\<open>print_host_name\<close>, \<^verbatim>\<open>print_contact\<close>, \<^verbatim>\<open>print_ttl\<close>
  and the others) and \<^verbatim>\<open>hinfo_id_to_strings\<close> are calls the world answers.
\<close>

definition print_call :: "world \<Rightarrow> string \<Rightarrow> pyval list \<Rightarrow> unit prog" where
  "print_call w helper vs =
     bind (emit (PrintOut helper vs)) (\<lambda>_. bind (call w) (\<lambda>_. ret ()))"

definition hinfo_id_to_strings :: "world \<Rightarrow> pyval \<Rightarrow> pyval prog" where
  "hinfo_id_to_strings w v = call w"

text \<open>\<^verbatim>\<open>if info[k]: helper(info[k])\<close>.\<close>

definition print_if_set :: "world \<Rightarrow> pyval \<Rightarrow> string \<Rightarrow> string \<Rightarrow> unit prog" where
  "print_if_set w info k helper =
     bind (lift (getitem info k)) (\<lambda>v.
     do_if (truthy v) (bind (lift (getitem info k)) (\<lambda>v'. print_call w helper [v'])))"

definition Host_opt_info :: "world \<Rightarrow> string list \<Rightarrow> unit prog" where
  "Host_opt_info w args =
     bind (arg_or_input args 0 ''Enter name or ip> '') (\<lambda>name_or_ip.
     bind (host_info_by_name_or_ip w (VStr name_or_ip)) (\<lambda>info.
     bind (lift (getitem info ''name'')) (\<lambda>nm.
     bind (print_call w ''print_host_name'' [nm]) (\<lambda>_.
     bind (lift (getitem info ''contact'')) (\<lambda>contact.
     bind (print_call w ''print_contact'' [contact]) (\<lambda>_.
     bind (print_if_set w info ''comment'' ''print_comment'') (\<lambda>_.
     bind (lift (getitem info ''ipaddress'')) (\<lambda>ips.
     bind (print_call w ''print_ipaddresses'' [ips]) (\<lambda>_.
     bind (lift (getitem info ''ttl'')) (\<lambda>ttl.
     bind (print_call w ''print_ttl'' [ttl]) (\<lambda>_.
     bind (bind (lift (getitem info ''hinfo'')) (\<lambda>h.
           do_if (truthy h)
             (bind (lift (getitem info ''hinfo'')) (\<lambda>h'.
              bind (hinfo_id_to_strings w h') (\<lambda>strs.
              print_call w ''print_hinfo'' [strs]))))) (\<lambda>_.
     bind (print_if_set w info ''loc'' ''print_loc'') (\<lambda>_.
     bind (lift (getitem info ''name'')) (\<lambda>nm2.
     bind (aliases_of_host w nm2) (\<lambda>aliases.
     bind (lift (iter_list aliases)) (\<lambda>als.
     bind (for_each als (\<lambda>cname.
             bind (lift (getitem info ''name'')) (\<lambda>nm3.
             print_call w ''print_cname'' [cname, nm3]))) (\<lambda>_.
     bind (lift (getitem info ''txt'')) (\<lambda>txts.
     bind (lift (iter_list txts)) (\<lambda>ts.
     bind (for_each ts (\<lambda>txt.
             bind (lift (getitem txt ''txt'')) (\<lambda>t.
             print_call w ''print_txt'' [t]))) (\<lambda>_.
     bind (lift (getitem info ''name'')) (\<lambda>nm4.
     cli_info w (py_format ''printed host info for {}'' [nm4]) None)))))))))))))))))))))"

text \<open>
  The handlers \<^verbatim>\<open>opt_a_show\<close>, \<^verbatim>\<open>opt_aaaa_show\<close>, \<^verbatim>\<open>opt_ttl_show\<close> and \<^verbatim>\<open>opt_loc_show\<close>
  have one shape: read the name, fetch the info, print one field, log.
\<close>

definition show_field ::
  "world \<Rightarrow> string list \<Rightarrow> string \<Rightarrow> string \<Rightarrow> string \<Rightarrow> string \<Rightarrow> unit prog" where
  "show_field w args prompt k helper msg =
     bind (arg_or_input args 0 prompt) (\<lambda>name.
     bind (host_info_by_name w (VStr name) True) (\<lambda>info.
     bind (lift (getitem info k)) (\<lambda>v.
     bind (print_call w helper [v]) (\<lambda>_.
     bind (lift (getitem info ''name'')) (\<lambda>nm.
     cli_info w (py_format msg [nm]) None)))))"

definition Host_opt_a_show :: "world \<Rightarrow> string list \<Rightarrow> unit prog" where
  "Host_opt_a_show w args =
     show_field w args ''Enter host name> '' ''ipaddress'' ''print_ipaddresses''
       ''showed ip addresses for {}''"

definition Host_opt_aaaa_show :: "world \<Rightarrow> string list \<Rightarrow> unit prog" where
  "Host_opt_aaaa_show w args =
     show_field w args ''Enter host name> '' ''ipaddress'' ''print_ipaddresses''
       ''showed aaaa records for {}''"

definition Host_opt_ttl_show :: "world \<Rightarrow> string list \<Rightarrow> unit prog" where
  "Host_opt_ttl_show w args =
     show_field w args ''Enter host name> '' ''ttl'' ''print_ttl'' ''showed TTL for {}''"

definition Host_opt_loc_show :: "world \<Rightarrow> string list \<Rightarrow> unit prog" where
  "Host_opt_loc_show w args =
     show_field w args ''Enter name> '' ''loc'' ''print_loc'' ''showed LOC for {}''"

definition Host_opt_cname_show :: "world \<Rightarrow> string list \<Rightarrow> unit prog" where
  "Host_opt_cname_show w args =
     bind (arg_or_input args 0 ''Enter name> '') (\<lambda>name.
     bind (host_info_by_name w (VStr name) True) (\<lambda>info.
     bind (lift (getitem info ''name'')) (\<lambda>nm.
     bind (aliases_of_host w nm) (\<lambda>aliases.
     bind (lift (iter_list aliases)) (\<lambda>als.
     bind (for_each als (\<lambda>alias.
             bind (lift (getitem info ''name'')) (\<lambda>nm2.
             print_call w ''print_cname'' [alias, nm2]))) (\<lambda>_.
     bind (lift (getitem info ''name'')) (\<lambda>nm3.
     cli_info w (py_format ''showed cname aliases for {}'' [nm3]) None)))))))"

definition Host_opt_hinfo_show :: "world \<Rightarrow> string list \<Rightarrow> unit prog" where
  "Host_opt_hinfo_show w args =
     bind (arg_or_input args 0 ''Enter host name> '') (\<lambda>name.
     bind (host_info_by_name w (VStr name) True) (\<lambda>info.
     bind (lift (getitem info ''hinfo'')) (\<lambda>h.
     bind (hinfo_id_to_strings w h) (\<lambda>strs.
     bind (print_call w ''print_hinfo'' [strs]) (\<lambda>_.
     bind (lift (getitem info ''name'')) (\<lambda>nm.
     cli_info w (py_format ''showed hinfo for {}'' [nm]) None))))))"

section \<open>The handlers as one table\<close>

text \<open>
  The option methods of the command classes \<^verbatim>\<open>History\<close>, \<^verbatim>\<open>Host\<close>, \<^verbatim>\<open>Zone\<close> and \<^verbatim>\<open>Subnet\<close>,
  which take the list of the arguments, and the three functions of the \<^verbatim>\<open>permission\<close>
  command, which take the parsed arguments. The options \<^verbatim>\<open>txt_add\<close>, \<^verbatim>\<open>txt_remove\<close> and
  \<^verbatim>\<open>used_list\<close> of \<^verbatim>\<open>Host\<close> and all the options of \<^verbatim>\<open>Zone\<close> and \<^verbatim>\<open>Subnet\<close> have the
  body \<^verbatim>\<open>pass\<close>. The option \<^verbatim>\<open>help\<close> of the base class prints a docstring and is not in
  the table.
\<close>

datatype handler =
    History_print | History_redo | History_undo
  | Host_info | Host_remove | Host_add | Host_set_contact | Host_set_comment | Host_rename
  | Host_a_add | Host_a_remove | Host_a_change | Host_a_show
  | Host_aaaa_add | Host_aaaa_remove | Host_aaaa_change | Host_aaaa_show
  | Host_ttl_set | Host_ttl_remove | Host_ttl_show
  | Host_cname_add | Host_cname_remove | Host_cname_show
  | Host_loc_set | Host_loc_remove | Host_loc_show
  | Host_hinfo_set | Host_hinfo_remove | Host_hinfo_show
  | Host_srv_add | Host_srv_remove | Host_srv_show
  | Host_txt_add | Host_txt_remove | Host_used_list
  | Zone_create | Zone_delete | Zone_set_ns | Zone_set_soa
  | Subnet_info | Subnet_set_vlan | Subnet_set_description | Subnet_set_name_prefix
  | Subnet_set_dns_delegated | Subnet_unset_dns_delegated | Subnet_set_reserved | Subnet_import

fun option_method :: "world \<Rightarrow> handler \<Rightarrow> string list \<Rightarrow> unit prog" where
  "option_method w History_print args = History_opt_print w args"
| "option_method w History_redo args = History_opt_redo w args"
| "option_method w History_undo args = History_opt_undo w args"
| "option_method w Host_info args = Host_opt_info w args"
| "option_method w Host_remove args = Host_opt_remove w args"
| "option_method w Host_add args = Host_opt_add w args"
| "option_method w Host_set_contact args = Host_opt_set_contact w args"
| "option_method w Host_set_comment args = Host_opt_set_comment w args"
| "option_method w Host_rename args = Host_opt_rename w args"
| "option_method w Host_a_add args = Host_opt_a_add w args"
| "option_method w Host_a_remove args = Host_opt_a_remove w args"
| "option_method w Host_a_change args = Host_opt_a_change w args"
| "option_method w Host_a_show args = Host_opt_a_show w args"
| "option_method w Host_aaaa_add args = Host_opt_aaaa_add w args"
| "option_method w Host_aaaa_remove args = Host_opt_aaaa_remove w args"
| "option_method w Host_aaaa_change args = Host_opt_aaaa_change w args"
| "option_method w Host_aaaa_show args = Host_opt_aaaa_show w args"
| "option_method w Host_ttl_set args = Host_opt_ttl_set w args"
| "option_method w Host_ttl_remove args = Host_opt_ttl_remove w args"
| "option_method w Host_ttl_show args = Host_opt_ttl_show w args"
| "option_method w Host_cname_add args = Host_opt_cname_add w args"
| "option_method w Host_cname_remove args = Host_opt_cname_remove w args"
| "option_method w Host_cname_show args = Host_opt_cname_show w args"
| "option_method w Host_loc_set args = Host_opt_loc_set w args"
| "option_method w Host_loc_remove args = Host_opt_loc_remove w args"
| "option_method w Host_loc_show args = Host_opt_loc_show w args"
| "option_method w Host_hinfo_set args = Host_opt_hinfo_set w args"
| "option_method w Host_hinfo_remove args = Host_opt_hinfo_remove w args"
| "option_method w Host_hinfo_show args = Host_opt_hinfo_show w args"
| "option_method w Host_srv_add args = Host_opt_srv_add w args"
| "option_method w Host_srv_remove args = Host_opt_srv_remove w args"
| "option_method w Host_srv_show args = Host_opt_srv_show w args"
| "option_method w h args = ret ()"

datatype permission_function = Network_list | Network_add | Network_remove

datatype invocation =
    Option_call handler "string list"
  | Permission_call permission_function namespace

fun run :: "world \<Rightarrow> invocation \<Rightarrow> unit prog" where
  "run w (Option_call h args) = option_method w h args"
| "run w (Permission_call Network_list args) = network_list w args"
| "run w (Permission_call Network_add args) = network_add w args"
| "run w (Permission_call Network_remove args) = network_remove w args"

section \<open>The history log\<close>

text \<open>
  Modelled from the spec: the module \<^verbatim>\<open>history\<close> (the log object with \<^verbatim>\<open>record_get\<close>,
  \<^verbatim>\<open>record_post\<close>, \<^verbatim>\<open>record_patch\<close>, \<^verbatim>\<open>record_delete\<close>, \<^verbatim>\<open>undo\<close> and \<^verbatim>\<open>redo\<close>) is
  imported by the handlers and is not among the sources. The definitions of this section
  follow the specification's data model and public contract of the operation history log.
\<close>

datatype http_method = GET | POST | PATCH | DELETE

text \<open>Modelled from the spec: one recorded operation, with the attributes the spec lists.\<close>

record entry =
  entry_seq :: nat
  entry_method :: http_method
  entry_url :: string
  entry_name :: pyval
  entry_old_data :: pyval
  entry_new_data :: pyval
  entry_undoable :: bool
  entry_redoable :: bool
  entry_undone :: bool

text \<open>
  Modelled from the spec: a call of the HTTP transport, with its payload when it has
  one, and the errors of \<^verbatim>\<open>undo\<close> and \<^verbatim>\<open>redo\<close>.
\<close>

datatype request = Request http_method string "pyval option"

datatype hist_error =
    InvalidArgument
  | NotUndoable
  | NotRedoable
  | AlreadyApplied
  | UpstreamFailure exc

text \<open>Modelled from the spec: an optional flag that is left out takes its default.\<close>

definition flag_or :: "bool \<Rightarrow> bool option \<Rightarrow> bool" where
  "flag_or dflt given = (case given of None \<Rightarrow> dflt | Some b \<Rightarrow> b)"

text \<open>
  Modelled from the spec: an entry is appended with the next sequence number (1-based,
  dense), not undone.
\<close>

definition append_entry ::
  "http_method \<Rightarrow> string \<Rightarrow> pyval \<Rightarrow> pyval \<Rightarrow> pyval \<Rightarrow> bool \<Rightarrow> bool \<Rightarrow> entry list \<Rightarrow> entry list" where
  "append_entry m u name old new un re log =
     log @ [\<lparr>entry_seq = Suc (length log), entry_method = m, entry_url = u, entry_name = name,
             entry_old_data = old, entry_new_data = new, entry_undoable = un,
             entry_redoable = re, entry_undone = False\<rparr>]"

text \<open>
  Modelled from the spec: \<^verbatim>\<open>record_get(url)\<close> is never undoable or redoable;
  \<^verbatim>\<open>record_post(url, resource_name, new_data, undoable=true, redoable=true)\<close>;
  \<^verbatim>\<open>record_patch(url, new_data, old_data, undoable=true, redoable=true)\<close>;
  \<^verbatim>\<open>record_delete(url, old_data, undoable=true, redoable=false)\<close>.
\<close>

definition log_record_get :: "string \<Rightarrow> entry list \<Rightarrow> entry list" where
  "log_record_get u log = append_entry GET u (VStr []) (VDict []) (VDict []) False False log"

definition log_record_post ::
  "string \<Rightarrow> pyval \<Rightarrow> pyval \<Rightarrow> bool option \<Rightarrow> bool option \<Rightarrow> entry list \<Rightarrow> entry list" where
  "log_record_post u name new un re log =
     append_entry POST u name (VDict []) new (flag_or True un) (flag_or True re) log"

definition log_record_patch ::
  "string \<Rightarrow> pyval \<Rightarrow> pyval \<Rightarrow> bool option \<Rightarrow> bool option \<Rightarrow> entry list \<Rightarrow> entry list" where
  "log_record_patch u new old un re log =
     append_entry PATCH u (VStr []) old new (flag_or True un) (flag_or True re) log"

definition log_record_delete ::
  "string \<Rightarrow> pyval \<Rightarrow> bool option \<Rightarrow> bool option \<Rightarrow> entry list \<Rightarrow> entry list" where
  "log_record_delete u old un re log =
     append_entry DELETE u (VStr []) old (VDict []) (flag_or True un) (flag_or False re) log"

text \<open>
  Modelled from the spec: the compensating call of an entry (DELETE for a recorded POST,
  PATCH with the old data for a recorded PATCH, POST with the old data for a recorded
  DELETE) and the call that repeats it (POST with the new data, PATCH with the new data,
  DELETE again). A GET has neither.
\<close>

definition undo_request :: "entry \<Rightarrow> request option" where
  "undo_request e =
     (case entry_method e of
        GET \<Rightarrow> None
      | POST \<Rightarrow> Some (Request DELETE (entry_url e) None)
      | PATCH \<Rightarrow> Some (Request PATCH (entry_url e) (Some (entry_old_data e)))
      | DELETE \<Rightarrow> Some (Request POST (entry_url e) (Some (entry_old_data e))))"

definition redo_request :: "entry \<Rightarrow> request option" where
  "redo_request e =
     (case entry_method e of
        GET \<Rightarrow> None
      | POST \<Rightarrow> Some (Request POST (entry_url e) (Some (entry_new_data e)))
      | PATCH \<Rightarrow> Some (Request PATCH (entry_url e) (Some (entry_new_data e)))
      | DELETE \<Rightarrow> Some (Request DELETE (entry_url e) None))"

definition set_undone :: "nat \<Rightarrow> bool \<Rightarrow> entry list \<Rightarrow> entry list" where
  "set_undone n b log = map (\<lambda>x. if entry_seq x = n then x\<lparr>entry_undone := b\<rparr> else x) log"

text \<open>
  Modelled from the spec: \<^verbatim>\<open>undo(sequence_number)\<close> fails with \<^verbatim>\<open>InvalidArgument\<close> if no
  entry has that number and with \<^verbatim>\<open>NotUndoable\<close> if the entry is not undoable or is already
  undone; otherwise it issues the compensating call and sets \<^verbatim>\<open>undone\<close> only if the call
  succeeds. The transport is a parameter: \<open>None\<close> is success, \<open>Some x\<close> the failure \<open>x\<close>.
  The result is the outcome, the log and the calls issued.
\<close>

definition log_undo ::
  "(request \<Rightarrow> exc option) \<Rightarrow> nat \<Rightarrow> entry list \<Rightarrow> (hist_error + unit) \<times> entry list \<times> request list" where
  "log_undo transport n log =
     (case find (\<lambda>x. entry_seq x = n) log of
        None \<Rightarrow> (Inl InvalidArgument, log, [])
      | Some e \<Rightarrow>
          if \<not> entry_undoable e \<or> entry_undone e then (Inl NotUndoable, log, [])
          else (case undo_request e of
                  None \<Rightarrow> (Inl NotUndoable, log, [])
                | Some rq \<Rightarrow>
                    (case transport rq of
                       Some x \<Rightarrow> (Inl (UpstreamFailure x), log, [rq])
                     | None \<Rightarrow> (Inr (), set_undone n True log, [rq]))))"

text \<open>
  Modelled from the spec: \<^verbatim>\<open>redo(sequence_number)\<close> fails with \<^verbatim>\<open>InvalidArgument\<close> or
  \<^verbatim>\<open>NotRedoable\<close> in the same way, and with \<^verbatim>\<open>AlreadyApplied\<close> for an entry that is not
  undone; otherwise it repeats the original call and clears \<^verbatim>\<open>undone\<close> if the call succeeds.
\<close>

definition log_redo ::
  "(request \<Rightarrow> exc option) \<Rightarrow> nat \<Rightarrow> entry list \<Rightarrow> (hist_error + unit) \<times> entry list \<times> request list" where
  "log_redo transport n log =
     (case find (\<lambda>x. entry_seq x = n) log of
        None \<Rightarrow> (Inl InvalidArgument, log, [])
      | Some e \<Rightarrow>
          if \<not> entry_redoable e then (Inl NotRedoable, log, [])
          else if \<not> entry_undone e then (Inl AlreadyApplied, log, [])
          else (case redo_request e of
                  None \<Rightarrow> (Inl NotRedoable, log, [])
                | Some rq \<Rightarrow>
                    (case transport rq of
                       Some x \<Rightarrow> (Inl (UpstreamFailure x), log, [rq])
                     | None \<Rightarrow> (Inr (), set_undone n False log, [rq]))))"

text \<open>A log of three records, and transports that always succeed and always fail.\<close>

definition demo_log :: "entry list" where
  "demo_log =
     log_record_delete ''/hosts/b'' (VDict [(''name'', VStr ''b''), (''ipaddress'', VStr ''10.0.0.1'')])
       None None
       (log_record_patch ''/hosts/a'' (VDict [(''ttl'', VInt 600)]) (VDict [(''ttl'', VInt (- 1))])
         None None
         (log_record_post ''/hosts/'' (VStr ''a'') (VDict [(''name'', VStr ''a'')]) None None []))"

text \<open>The second entry of that log: a change of TTL.\<close>

definition demo_patch :: entry where
  "demo_patch = \<lparr>entry_seq = 2, entry_method = PATCH, entry_url = ''/hosts/a'',
      entry_name = VStr [], entry_old_data = VDict [(''ttl'', VInt (- 1))],
      entry_new_data = VDict [(''ttl'', VInt 600)], entry_undoable = True,
      entry_redoable = True, entry_undone = False\<rparr>"

definition transport_ok :: "request \<Rightarrow> exc option" where
  "transport_ok rq = None"

definition transport_down :: "request \<Rightarrow> exc option" where
  "transport_down rq = Some (OtherError ''connection refused'')"

section \<open>Notions used to state the properties\<close>

text \<open>The events a run has added to the trace.\<close>

definition new_events :: "state \<Rightarrow> state \<Rightarrow> event list" where
  "new_events s s' = drop (length (trace s)) (trace s')"

text \<open>
  An entry of the server's answer with its range parsed and stored, as the first loop of
  \<^verbatim>\<open>_networksort\<close> leaves it; \<open>None\<close> when that loop raises on the entry.
\<close>

definition parse_entry :: "world \<Rightarrow> pyval \<Rightarrow> (network \<times> pyval) option" where
  "parse_entry w i =
     (case getitem i ''range'' of
        Inl e \<Rightarrow> None
      | Inr r \<Rightarrow>
          (case ip_network w r of
             Inl e \<Rightarrow> None
           | Inr n \<Rightarrow>
               (case setitem i ''range'' (VNet n) of Inl e \<Rightarrow> None | Inr i' \<Rightarrow> Some (n, i'))))"

text \<open>The first column of the lines that \<^verbatim>\<open>print_perm\<close> has printed.\<close>

fun range_column :: "event list \<Rightarrow> pyval list" where
  "range_column [] = []"
| "range_column (PrintPerm r g x # evs) = r # range_column evs"
| "range_column (e # evs) = range_column evs"

text \<open>
  A listing is in order when no IPv4 network follows an IPv6 network and the networks of
  each version ascend by network address and netmask.
\<close>

definition ordered_listing :: "network list \<Rightarrow> bool" where
  "ordered_listing ns =
     (let v4 = takeWhile (\<lambda>n. version n = V4) ns;
          v6 = dropWhile (\<lambda>n. version n = V4) ns
      in list_all (\<lambda>n. version n = V6) v6 \<and> sorted (map net_key v4) \<and> sorted (map net_key v6))"

text \<open>The calls that remove something: the HTTP DELETE and its record in the history.\<close>

definition is_delete_call :: "event \<Rightarrow> bool" where
  "is_delete_call e = (case e of HttpDelete _ \<Rightarrow> True | RecordDelete _ _ _ _ \<Rightarrow> True | _ \<Rightarrow> False)"

subsection \<open>What the handlers record\<close>

text \<open>
  A PATCH changes the identifying key of its resource when its payload sets the host name
  or the IP address: the keys that the URLs of hosts and of addresses are built from.
\<close>

definition renames :: "pyval \<Rightarrow> bool" where
  "renames new = (''name'' \<in> keys new \<or> ''ipaddress'' \<in> keys new)"

text \<open>The URL is the one of the resource that the old data names.\<close>

definition url_names_old :: "world \<Rightarrow> string \<Rightarrow> pyval \<Rightarrow> bool" where
  "url_names_old w u old =
     (case old of
        VDict [(k, v)] \<Rightarrow>
          (k = ''name'' \<and> u = conf_url w ''http://{}:{}/hosts/{}'' [v])
          \<or> (k = ''ipaddress'' \<and> u = conf_url w ''http://{}:{}/ipaddresses/{}'' [v])
      | _ \<Rightarrow> False)"

text \<open>
  What holds of every \<^verbatim>\<open>record_patch\<close>: two dictionaries on the same keys; both flags off,
  on the URL of the old name, when the identifying key changes, and no flag given otherwise.
\<close>

definition patch_ok :: "world \<Rightarrow> string \<Rightarrow> pyval \<Rightarrow> pyval \<Rightarrow> bool option \<Rightarrow> bool option \<Rightarrow> bool" where
  "patch_ok w u new old un re =
     (is_dict new \<and> is_dict old \<and> keys new = keys old
      \<and> (if renames new then un = Some False \<and> re = Some False \<and> url_names_old w u old
          else un = None \<and> re = None))"

text \<open>
  What holds of every \<^verbatim>\<open>record_delete\<close>: the old data is a dictionary, recorded with
  \<^verbatim>\<open>undoable=False\<close> when it is empty and with the default flag when it is not.
\<close>

definition delete_ok :: "pyval \<Rightarrow> bool option \<Rightarrow> bool" where
  "delete_ok old un =
     (case old of
        VDict d \<Rightarrow> if d = [] then un = Some False else un = None
      | _ \<Rightarrow> False)"

text \<open>The calls of the history log that record, and the requests of the HTTP helpers.\<close>

definition is_record :: "event \<Rightarrow> bool" where
  "is_record e =
     (case e of
        RecordGet u extra \<Rightarrow> True
      | RecordPost u nm nd un re \<Rightarrow> True
      | RecordPatch u nd od un re \<Rightarrow> True
      | RecordDelete u od un re \<Rightarrow> True
      | _ \<Rightarrow> False)"

definition is_request :: "event \<Rightarrow> bool" where
  "is_request e =
     (case e of
        HttpGet u \<Rightarrow> True
      | HttpPost u d \<Rightarrow> True
      | HttpPatch u d \<Rightarrow> True
      | HttpDelete u \<Rightarrow> True
      | _ \<Rightarrow> False)"

text \<open>
  \<open>records p e\<close>: the record \<open>p\<close> is the record of the request \<open>e\<close>. A POST is recorded with
  its payload as the new data, or with no data when the record is neither undoable nor
  redoable; a PATCH with its payload; a GET and a DELETE with their URL.
\<close>

definition records :: "event \<Rightarrow> event \<Rightarrow> bool" where
  "records p e =
     (case p of
        RecordGet u extra \<Rightarrow> e = HttpGet u
      | RecordPost u nm nd un re \<Rightarrow>
          (case e of
             HttpPost u' d \<Rightarrow>
               u' = u \<and> (nd = VDict d \<or> (nd = VDict [] \<and> un = Some False \<and> re = Some False))
           | _ \<Rightarrow> False)
      | RecordPatch u nd od un re \<Rightarrow>
          (case e of HttpPatch u' d \<Rightarrow> u' = u \<and> nd = VDict d | _ \<Rightarrow> False)
      | RecordDelete u od un re \<Rightarrow> e = HttpDelete u
      | _ \<Rightarrow> False)"

text \<open>
  An event in its place: the event after a record is the request it records, a request
  stands nowhere else, and \<^verbatim>\<open>record_get\<close> is given a URL and nothing more.
\<close>

definition in_step :: "event option \<Rightarrow> event \<Rightarrow> bool" where
  "in_step prev e =
     ((case prev of
         None \<Rightarrow> \<not> is_request e
       | Some p \<Rightarrow> if is_record p then records p e else \<not> is_request e)
      \<and> (case e of RecordGet u extra \<Rightarrow> extra = [] | _ \<Rightarrow> True))"

text \<open>The two conditions on the records, and the invariant of a trace.\<close>

definition record_ok :: "world \<Rightarrow> event \<Rightarrow> bool" where
  "record_ok w e =
     (case e of
        RecordPatch u new old un re \<Rightarrow> patch_ok w u new old un re
      | RecordDelete u old un re \<Rightarrow> delete_ok old un
      | _ \<Rightarrow> True)"

definition ok_step :: "world \<Rightarrow> bool \<Rightarrow> event option \<Rightarrow> event \<Rightarrow> bool" where
  "ok_step w strict prev e = (record_ok w e \<and> (\<not> strict \<or> in_step prev e))"

fun trace_ok :: "world \<Rightarrow> bool \<Rightarrow> event option \<Rightarrow> event list \<Rightarrow> bool" where
  "trace_ok w strict prev [] = True"
| "trace_ok w strict prev (e # es) = (ok_step w strict prev e \<and> trace_ok w strict (Some e) es)"

text \<open>A trace is closed when it does not end with a record whose request is still to come.\<close>

definition closed :: "event list \<Rightarrow> bool" where
  "closed evs = (evs = [] \<or> \<not> is_record (last evs))"

text \<open>
  \<open>pres w strict m\<close>: every run of \<open>m\<close> adds events that keep the invariant, and ends closed
  when it returns. \<open>pres_after w strict e m\<close> is the same for a program that runs right after
  the record \<open>e\<close>. A silent program makes no record and no request.
\<close>

definition pres :: "world \<Rightarrow> bool \<Rightarrow> 'a prog \<Rightarrow> bool" where
  "pres w strict m =
     (\<forall>s r s'. m s = (r, s') \<longrightarrow>
        (\<exists>evs. trace s' = trace s @ evs \<and> trace_ok w strict None evs \<and> (isl r \<or> closed evs)))"

definition pres_after :: "world \<Rightarrow> bool \<Rightarrow> event \<Rightarrow> 'a prog \<Rightarrow> bool" where
  "pres_after w strict e m =
     (\<forall>s r s'. m s = (r, s') \<longrightarrow>
        (\<exists>evs. trace s' = trace s @ evs \<and> trace_ok w strict (Some e) evs
           \<and> (isl r \<or> (evs \<noteq> [] \<and> closed evs))))"

definition silent :: "'a prog \<Rightarrow> bool" where
  "silent m =
     (\<forall>s r s'. m s = (r, s') \<longrightarrow>
        (\<exists>evs. trace s' = trace s @ evs \<and> list_all (\<lambda>e. \<not> is_record e \<and> \<not> is_request e) evs))"

text \<open>Every event of a trace is in its place.\<close>

fun calls_recorded :: "event option \<Rightarrow> event list \<Rightarrow> bool" where
  "calls_recorded prev [] = True"
| "calls_recorded prev (e # es) = (in_step prev e \<and> calls_recorded (Some e) es)"

text \<open>
  Every POST of a trace comes right after a \<^verbatim>\<open>record_post\<close> of its URL whose new data is
  the payload of the request.
\<close>

fun posts_carry_payload :: "event option \<Rightarrow> event list \<Rightarrow> bool" where
  "posts_carry_payload prev [] = True"
| "posts_carry_payload prev (e # es) =
     ((case e of
         HttpPost u d \<Rightarrow>
           (case prev of
              Some (RecordPost u' nm nd un re) \<Rightarrow> u' = u \<and> nd = VDict d
            | _ \<Rightarrow> False)
       | _ \<Rightarrow> True)
      \<and> posts_carry_payload (Some e) es)"

text \<open>The old data of the removals that a trace records with the default flags.\<close>

fun undoable_deletes :: "event list \<Rightarrow> pyval list" where
  "undoable_deletes [] = []"
| "undoable_deletes (RecordDelete u old None re # evs) = old # undoable_deletes evs"
| "undoable_deletes (e # evs) = undoable_deletes evs"

text \<open>The field \<^verbatim>\<open>ipaddress\<close> of a dictionary is one address string.\<close>

definition address_string :: "pyval \<Rightarrow> bool" where
  "address_string old = (case getitem old ''ipaddress'' of Inr (VStr a) \<Rightarrow> True | _ \<Rightarrow> False)"

definition is_network_add :: "invocation \<Rightarrow> bool" where
  "is_network_add c = (case c of Permission_call Network_add a \<Rightarrow> True | _ \<Rightarrow> False)"

text \<open>\<open>emits P m\<close>: every event that a run of \<open>m\<close> adds satisfies \<open>P\<close>.\<close>

definition emits :: "(event \<Rightarrow> bool) \<Rightarrow> 'a prog \<Rightarrow> bool" where
  "emits P m = (\<forall>s r s'. m s = (r, s') \<longrightarrow> (\<exists>evs. trace s' = trace s @ evs \<and> list_all P evs))"

section \<open>Concrete worlds and states\<close>


definition init_state :: "string list \<Rightarrow> state" where
  "init_state lines = \<lparr>stdin = lines, clock = 0, trace = []\<rparr>"

text \<open>A world whose collaborators answer from a script, then return \<^verbatim>\<open>None\<close>.\<close>

definition scripted :: "(exc + pyval) list \<Rightarrow> nat \<Rightarrow> exc + pyval" where
  "scripted xs n = (if n < length xs then xs ! n else Inr VNone)"

text \<open>A parser that knows three networks, and a server that lists them out of order.\<close>

definition demo_networks :: "(string \<times> network) list" where
  "demo_networks =
     [(''10.0.0.0/24'', \<lparr>version = V4, network_address = 167772160, prefixlen = 24, net_text = ''10.0.0.0/24''\<rparr>),
      (''10.0.1.0/24'', \<lparr>version = V4, network_address = 167772416, prefixlen = 24, net_text = ''10.0.1.0/24''\<rparr>),
      (''2001:db8::/32'', \<lparr>version = V6, network_address = 42540766411282592856903984951653826560, prefixlen = 32, net_text = ''2001:db8::/32''\<rparr>)]"

definition demo_ip_network :: "pyval \<Rightarrow> exc + network" where
  "demo_ip_network v =
     (case v of
        VStr s \<Rightarrow> (case map_of demo_networks s of
                     Some n \<Rightarrow> Inr n
                   | None \<Rightarrow> Inl (ValueError (repr_str s @ '' does not appear to be an IPv4 or IPv6 network'')))
      | _ \<Rightarrow> Inl TypeError)"

definition perm :: "string \<Rightarrow> string \<Rightarrow> string \<Rightarrow> int \<Rightarrow> pyval" where
  "perm r g x i = VDict [(''id'', VInt i), (''range'', VStr r), (''group'', VStr g), (''regex'', VStr x)]"

definition listing_world :: world where
  "listing_world = \<lparr>server_ip = VStr ''localhost'', server_port = VInt 8000,
     answer = scripted [Inr (VList [perm ''2001:db8::/32'' ''g6'' ''.*'' 1,
                                    perm ''10.0.1.0/24'' ''gb'' ''.*'' 2,
                                    perm ''10.0.0.0/24'' ''ga'' ''.*'' 3])],
     ip_network = demo_ip_network, sorted_by = (\<lambda>f xs. Inl TypeError)\<rparr>"

definition no_args :: namespace where
  "no_args = \<lparr>range_arg = None, group_arg = None, regex_arg = None\<rparr>"

text \<open>Servers that answer a removal query with two matches and with one match.\<close>

definition remove_args :: namespace where
  "remove_args = \<lparr>range_arg = Some ''10.0.0.0/24'', group_arg = Some ''ga'', regex_arg = Some ''.*''\<rparr>"

definition two_matches_world :: world where
  "two_matches_world = \<lparr>server_ip = VStr ''localhost'', server_port = VInt 8000,
     answer = scripted [Inr (VList [perm ''10.0.0.0/24'' ''ga'' ''.*'' 3,
                                    perm ''10.0.0.0/24'' ''ga'' ''.*'' 4])],
     ip_network = demo_ip_network, sorted_by = (\<lambda>f xs. Inl TypeError)\<rparr>"

definition one_match_world :: world where
  "one_match_world = \<lparr>server_ip = VStr ''localhost'', server_port = VInt 8000,
     answer = scripted [Inr (VList [perm ''10.0.0.0/24'' ''ga'' ''.*'' 3])],
     ip_network = demo_ip_network, sorted_by = (\<lambda>f xs. Inl TypeError)\<rparr>"

text \<open>Two hosts, one with an address and one without, and a server that answers from a script.\<close>

definition host_a :: pyval where
  "host_a = VDict [(''hostid'', VInt 7), (''name'', VStr ''a.example.org''),
     (''contact'', VStr ''a@example.org''), (''comment'', VStr []),
     (''ipaddress'', VList [VDict [(''hostid'', VInt 7), (''ipaddress'', VStr ''10.0.0.5'')]]),
     (''ttl'', VNone), (''hinfo'', VNone), (''loc'', VNone), (''cname'', VList []),
     (''txt'', VList [])]"

definition host_b :: pyval where
  "host_b = VDict [(''hostid'', VInt 8), (''name'', VStr ''b.example.org''),
     (''contact'', VStr ''b@example.org''), (''comment'', VStr []),
     (''ipaddress'', VList []),
     (''ttl'', VNone), (''hinfo'', VNone), (''loc'', VNone), (''cname'', VList []),
     (''txt'', VList [])]"

definition server :: "(exc + pyval) list \<Rightarrow> world" where
  "server script = \<lparr>server_ip = VStr ''localhost'', server_port = VInt 8000,
     answer = scripted script, ip_network = demo_ip_network,
     sorted_by = (\<lambda>f xs. Inl TypeError)\<rparr>"

section \<open>Properties\<close>

subsection \<open>Laws of the embedding\<close>

lemma bind_ret [simp]: "bind (ret x) f = f x"
  by (rule ext) (simp add: bind_def ret_def)

lemma bind_lift_Inr [simp]: "bind (lift (Inr x)) f = f x"
  by (rule ext) (simp add: bind_def lift_def)

lemma bind_lift_Inl [simp]: "bind (lift (Inl e)) f = raise e"
  by (rule ext) (simp add: bind_def lift_def raise_def)

lemma bind_raise [simp]: "bind (raise e) f = raise e"
  by (rule ext) (simp add: bind_def raise_def)

lemma try_except_raise [simp]: "try_except (raise e) c h = (if c e then h e else raise e)"
  by (rule ext) (simp add: try_except_def raise_def)


subsection \<open>The History command and its argument\<close>






lemma py_int_examples:
  "py_int [CHR 0xA0, CHR ''5''] = Inr 5"
  "py_int '' -1_0 '' = Inr (- 10)"
  "py_int [CHR 0x1C, CHR ''5''] =
     Inl (ValueError (''invalid literal for int() with base 10: '' @ [CHR 0x27, CHR 0x5C] @ ''x1c5''
                      @ [CHR 0x27]))"
  by code_simp+



text \<open>
  C10. With an empty argument list, \<^verbatim>\<open>undo\<close> and \<^verbatim>\<open>redo\<close> raise \<^verbatim>\<open>IndexError\<close> from reading
  \<^verbatim>\<open>args[0]\<close>. The \<^verbatim>\<open>except ValueError\<close> clause does not catch it, and the state is
  untouched: no history lookup, no warning and no HTTP call has been issued.
\<close>

theorem History_no_argument_IndexError:
  "History_opt_undo w [] s = (Inl IndexError, s) \<and> History_opt_redo w [] s = (Inl IndexError, s)"
  by (simp add: History_opt_undo_def History_opt_redo_def index_def is_ValueError_def raise_def)

subsection \<open>The listing of network permissions\<close>

lemma if_run: "(if c then m else m') s = (if c then m s else m' s)"
  by simp

lemma bindE:
  assumes "bind m f s = (r, s')"
  obtains e where "m s = (Inl e, s')" "r = Inl e"
        | x s1 where "m s = (Inr x, s1)" "f x s1 = (r, s')"
  using assms by (auto simp: bind_def split: prod.splits sum.splits)

lemma ordered_listingI:
  assumes "\<forall>n\<in>set x4. version n = V4" "\<forall>n\<in>set x6. version n = V6"
    "sorted (map net_key x4)" "sorted (map net_key x6)"
  shows "ordered_listing (x4 @ x6)"
proof -
  have t6: "takeWhile (\<lambda>n. version n = V4) x6 = []"
    using assms(2) by (cases x6) auto
  have d6: "dropWhile (\<lambda>n. version n = V4) x6 = x6"
    using assms(2) by (cases x6) auto
  have t: "takeWhile (\<lambda>n. version n = V4) (x4 @ x6) = x4"
    using assms(1) t6 by (simp add: takeWhile_append2)
  have d: "dropWhile (\<lambda>n. version n = V4) (x4 @ x6) = x6"
    using assms(1) d6 by (simp add: dropWhile_append2)
  show ?thesis
    using assms by (simp add: ordered_listing_def t d list_all_iff)
qed

lemma getitem_setitem: "setitem i k v = Inr i' \<Longrightarrow> getitem i' k = Inr v"
proof -
  have m: "map_of (dict_set k v d) k = Some v" for d
    by (induction d) auto
  show "setitem i k v = Inr i' \<Longrightarrow> getitem i' k = Inr v"
    by (auto simp: setitem_def getitem_def m split: pyval.splits)
qed

lemma parse_entry_range: "parse_entry w i = Some p \<Longrightarrow> getitem (snd p) ''range'' = Inr (VNet (fst p))"
  by (auto simp: parse_entry_def getitem_setitem split: sum.splits)

lemma networksort_step_run:
  assumes "networksort_step w i acc s = (r, s')"
  shows "s' = s \<and> (\<forall>out. r = Inr out \<longrightarrow>
           (\<exists>p. parse_entry w i = Some p \<and>
                out = (if version (fst p) = V4 then (fst acc @ [p], snd acc)
                       else (fst acc, snd acc @ [p]))))"
proof (cases "parse_entry w i")
  case None
  with assms show ?thesis
    by (auto simp: networksort_step_def parse_entry_def bind_def lift_def ret_def raise_def
        split: sum.splits prod.splits)
next
  case (Some p)
  with assms show ?thesis
    by (cases p)
      (auto simp: networksort_step_def parse_entry_def bind_def lift_def ret_def raise_def
        split: sum.splits prod.splits if_splits)
qed

lemma fold_networksort_step:
  assumes "fold_prog items (networksort_step w) acc s = (r, s')"
  shows "s' = s \<and> (\<forall>out. r = Inr out \<longrightarrow>
           (\<exists>ps. map (parse_entry w) items = map Some ps
              \<and> fst out = fst acc @ filter (\<lambda>p. version (fst p) = V4) ps
              \<and> snd out = snd acc @ filter (\<lambda>p. version (fst p) \<noteq> V4) ps))"
  using assms
proof (induction items arbitrary: acc s)
  case Nil
  then show ?case by (auto simp: ret_def)
next
  case (Cons i items)
  from Cons.prems have b: "bind (networksort_step w i acc) (fold_prog items (networksort_step w)) s = (r, s')"
    by simp
  show ?case
  proof (rule bindE [OF b])
    fix e assume "networksort_step w i acc s = (Inl e, s')" "r = Inl e"
    then show ?thesis using networksort_step_run by blast
  next
    fix x s1
    assume st: "networksort_step w i acc s = (Inr x, s1)"
      and rest: "fold_prog items (networksort_step w) x s1 = (r, s')"
    from networksort_step_run [OF st] obtain p where
      s1: "s1 = s" and p: "parse_entry w i = Some p"
      and x: "x = (if version (fst p) = V4 then (fst acc @ [p], snd acc) else (fst acc, snd acc @ [p]))"
      by blast
    from Cons.IH [OF rest] have s': "s' = s1"
      and ih: "\<forall>out. r = Inr out \<longrightarrow>
           (\<exists>ps. map (parse_entry w) items = map Some ps
              \<and> fst out = fst x @ filter (\<lambda>p. version (fst p) = V4) ps
              \<and> snd out = snd x @ filter (\<lambda>p. version (fst p) \<noteq> V4) ps)"
      by blast+
    show ?thesis
    proof (intro conjI allI impI)
      show "s' = s" using s' s1 by simp
    next
      fix out assume "r = Inr out"
      with ih obtain ps where ps: "map (parse_entry w) items = map Some ps"
        "fst out = fst x @ filter (\<lambda>p. version (fst p) = V4) ps"
        "snd out = snd x @ filter (\<lambda>p. version (fst p) \<noteq> V4) ps"
        by blast
      show "\<exists>ps. map (parse_entry w) (i # items) = map Some ps
              \<and> fst out = fst acc @ filter (\<lambda>p. version (fst p) = V4) ps
              \<and> snd out = snd acc @ filter (\<lambda>p. version (fst p) \<noteq> V4) ps"
        by (rule exI [of _ "p # ps"]) (use ps p x in auto)
    qed
  qed
qed

lemma networksort_run:
  assumes "networksort w data s = (r, s')"
  shows "s' = s \<and> (\<forall>out. r = Inr out \<longrightarrow>
           (\<exists>items ps. iter_list data = Inr items \<and> map (parse_entry w) items = map Some ps
              \<and> out = sort_key (\<lambda>p. net_key (fst p)) (filter (\<lambda>p. version (fst p) = V4) ps)
                    @ sort_key (\<lambda>p. net_key (fst p)) (filter (\<lambda>p. version (fst p) \<noteq> V4) ps)))"
proof (cases "iter_list data")
  case (Inl e)
  with assms show ?thesis by (auto simp: networksort_def raise_def)
next
  case (Inr items)
  with assms have b: "bind (fold_prog items (networksort_step w) ([], []))
      (\<lambda>acc. ret (sort_key (\<lambda>p. net_key (fst p)) (fst acc) @ sort_key (\<lambda>p. net_key (fst p)) (snd acc))) s = (r, s')"
    by (simp add: networksort_def)
  show ?thesis
  proof (rule bindE [OF b])
    fix e assume "fold_prog items (networksort_step w) ([], []) s = (Inl e, s')" "r = Inl e"
    then show ?thesis using fold_networksort_step by blast
  next
    fix x s1
    assume f: "fold_prog items (networksort_step w) ([], []) s = (Inr x, s1)"
      and rr: "ret (sort_key (\<lambda>p. net_key (fst p)) (fst x) @ sort_key (\<lambda>p. net_key (fst p)) (snd x)) s1 = (r, s')"
    from fold_networksort_step [OF f] obtain ps where "s1 = s"
      "map (parse_entry w) items = map Some ps"
      "fst x = filter (\<lambda>p. version (fst p) = V4) ps" "snd x = filter (\<lambda>p. version (fst p) \<noteq> V4) ps"
      by auto
    with rr Inr show ?thesis by (auto simp: ret_def)
  qed
qed


lemma range_column_append: "range_column (xs @ ys) = range_column xs @ range_column ys"
  by (induction xs rule: range_column.induct) auto

lemma print_row_run:
  assumes "print_row p s = (r, s')" "getitem (snd p) ''range'' = Inr (VNet (fst p))"
  shows "(\<exists>e. r = Inl e \<and> s' = s)
       \<or> (r = Inr () \<and> (\<exists>g x. trace s' = trace s @ [PrintPerm (VStr (net_text (fst p))) g x]))"
  using assms
  by (auto simp: print_row_def print_perm_def bind_def lift_def raise_def emit_def py_str_def
      split: sum.splits if_splits)

lemma print_rows_run:
  assumes "for_each xs print_row s = (r, s')"
    "\<forall>p\<in>set xs. getitem (snd p) ''range'' = Inr (VNet (fst p))"
  shows "\<exists>k evs. k \<le> length xs \<and> trace s' = trace s @ evs
           \<and> range_column evs = map (\<lambda>p. VStr (net_text (fst p))) (take k xs)
           \<and> (r = Inr () \<longrightarrow> k = length xs)"
  using assms
proof (induction xs arbitrary: s)
  case Nil
  then show ?case by (auto simp: ret_def)
next
  case (Cons p xs)
  from Cons.prems(1) have b: "bind (print_row p) (\<lambda>_. for_each xs print_row) s = (r, s')"
    by simp
  have pr: "getitem (snd p) ''range'' = Inr (VNet (fst p))"
    using Cons.prems(2) by simp
  show ?case
  proof (rule bindE [OF b])
    fix e assume "print_row p s = (Inl e, s')" "r = Inl e"
    with print_row_run [OF _ pr] have "s' = s" by blast
    with \<open>r = Inl e\<close> show ?thesis
      by (intro exI [of _ 0] exI [of _ "[]"]) simp
  next
    fix x s1
    assume st: "print_row p s = (Inr x, s1)" and rest: "for_each xs print_row s1 = (r, s')"
    from print_row_run [OF st pr] obtain g y where
      s1: "trace s1 = trace s @ [PrintPerm (VStr (net_text (fst p))) g y]"
      by auto
    from Cons.IH [OF rest] Cons.prems(2) obtain k evs where
      k: "k \<le> length xs" "trace s' = trace s1 @ evs"
      "range_column evs = map (\<lambda>p. VStr (net_text (fst p))) (take k xs)"
      "r = Inr () \<longrightarrow> k = length xs"
      by auto
    show ?thesis
      by (intro exI [of _ "Suc k"] exI [of _ "PrintPerm (VStr (net_text (fst p))) g y # evs"])
        (use k s1 in auto)
  qed
qed

lemma select_step_pure: "select_step w n i data s = (r, s') \<Longrightarrow> s' = s"
  by (auto simp: select_step_def bind_def lift_def ret_def if_run split: sum.splits if_splits)

lemma select_step_subset:
  "select_step w n i data s = (Inr sel, s') \<Longrightarrow> set sel \<subseteq> insert i (set data)"
  by (auto simp: select_step_def bind_def lift_def ret_def if_run split: sum.splits if_splits)

lemma fold_select_step:
  assumes "fold_prog items (select_step w n) data s = (r, s')"
  shows "s' = s \<and> (\<forall>sel. r = Inr sel \<longrightarrow> set sel \<subseteq> set data \<union> set items)"
  using assms
proof (induction items arbitrary: data s)
  case Nil
  then show ?case by (auto simp: ret_def)
next
  case (Cons i items)
  from Cons.prems have b: "bind (select_step w n i data) (fold_prog items (select_step w n)) s = (r, s')"
    by simp
  show ?case
  proof (rule bindE [OF b])
    fix e assume "select_step w n i data s = (Inl e, s')" "r = Inl e"
    then show ?thesis using select_step_pure by blast
  next
    fix x s1
    assume st: "select_step w n i data s = (Inr x, s1)"
      and rest: "fold_prog items (select_step w n) x s1 = (r, s')"
    from select_step_pure [OF st] select_step_subset [OF st] Cons.IH [OF rest]
    show ?thesis by auto
  qed
qed


lemma get_list_run:
  "get_list w path s = (answer w (clock s), s\<lparr>trace := trace s @ [GetList path], clock := Suc (clock s)\<rparr>)"
  by (simp add: get_list_def bind_def emit_def call_def)

lemma cli_info_run:
  "cli_info w msg flag s =
     (case answer w (clock s) of Inl x \<Rightarrow> Inl x | Inr v \<Rightarrow> Inr (),
      s\<lparr>trace := trace s @ [Info msg flag], clock := Suc (clock s)\<rparr>)"
  by (simp add: cli_info_def bind_def emit_def call_def ret_def split: sum.splits)

lemma listed_data_run:
  assumes "listed_data w a v s = (r, s')"
  shows "s' = s \<and> (\<forall>data. r = Inr data \<longrightarrow>
      (range_arg a = None \<and> data = v)
    \<or> (range_arg a \<noteq> None
        \<and> (\<exists>items sel. iter_list v = Inr items \<and> data = VList sel \<and> set sel \<subseteq> set items)))"
proof (cases "range_arg a")
  case None
  with assms show ?thesis by (auto simp: listed_data_def ret_def)
next
  case (Some rg)
  show ?thesis
  proof (cases "ip_network w (VStr rg)")
    case (Inl e)
    with assms Some show ?thesis by (auto simp: listed_data_def raise_def)
  next
    case n: (Inr n)
    show ?thesis
    proof (cases "iter_list v")
      case (Inl e)
      with assms Some n show ?thesis by (auto simp: listed_data_def raise_def)
    next
      case (Inr items)
      with assms Some n have b:
        "bind (fold_prog items (select_step w n) []) (\<lambda>sel. ret (VList sel)) s = (r, s')"
        by (simp add: listed_data_def)
      show ?thesis
      proof (rule bindE [OF b])
        fix e assume "fold_prog items (select_step w n) [] s = (Inl e, s')" "r = Inl e"
        then show ?thesis using fold_select_step by blast
      next
        fix x s1
        assume f: "fold_prog items (select_step w n) [] s = (Inr x, s1)"
          and rr: "ret (VList x) s1 = (r, s')"
        from fold_select_step [OF f] have "s1 = s" "set x \<subseteq> set items" by auto
        with rr Inr Some show ?thesis by (auto simp: ret_def)
      qed
    qed
  qed
qed


lemma mset_sorted_parts:
  "mset (sort_key f (filter P ps) @ sort_key f (filter (\<lambda>p. \<not> P p) ps)) = mset ps"
  by simp

text \<open>
  C8. Whatever the server returns and in whatever order, the ranges that \<^verbatim>\<open>network_list\<close>
  prints after the header are the parsed ranges of entries of the server's answer, all
  IPv4 networks come before all IPv6 networks, and within each version they ascend (by
  network address, then netmask). When no range filter is given and the handler returns,
  every entry of the answer is printed exactly once.
\<close>

theorem network_list_order:
  assumes "network_list w a s = (r, s')"
  shows "\<exists>rows.
      (range_column (new_events s s') = [] \<and> rows = []
        \<or> range_column (new_events s s') = VStr ''Range'' # map (\<lambda>p. VStr (net_text (fst p))) rows)
    \<and> (\<forall>p\<in>set rows. \<exists>v items i. answer w (clock s) = Inr v \<and> iter_list v = Inr items
           \<and> i \<in> set items \<and> parse_entry w i = Some p)
    \<and> ordered_listing (map fst rows)
    \<and> (\<forall>ps. r = Inr () \<and> range_arg a = None \<and> answer w (clock s) = Inr (VList ps)
           \<longrightarrow> mset (map Some rows) = mset (map (parse_entry w) ps))"
proof -
  let ?s0 = "s\<lparr>trace := trace s @ [GetList (list_url a)], clock := Suc (clock s)\<rparr>"
  let ?none = "\<exists>rows.
      (range_column (new_events s s') = [] \<and> rows = []
        \<or> range_column (new_events s s') = VStr ''Range'' # map (\<lambda>p. VStr (net_text (fst p))) rows)
    \<and> (\<forall>p\<in>set rows. \<exists>v items i. answer w (clock s) = Inr v \<and> iter_list v = Inr items
           \<and> i \<in> set items \<and> parse_entry w i = Some p)
    \<and> ordered_listing (map fst rows)
    \<and> (\<forall>ps. r = Inr () \<and> range_arg a = None \<and> answer w (clock s) = Inr (VList ps)
           \<longrightarrow> mset (map Some rows) = mset (map (parse_entry w) ps))"
  have empty: "ordered_listing []"
    by (simp add: ordered_listing_def)
  have quiet: ?none
    if "range_column (new_events s s') = []"
      "\<forall>ps. r = Inr () \<and> range_arg a = None \<and> answer w (clock s) = Inr (VList ps) \<longrightarrow> ps = []"
  proof -
    show ?thesis
      by (rule exI [of _ "[]"]) (use that empty in auto)
  qed
  from assms have b: "bind (get_list w (list_url a)) (\<lambda>permissions.
      bind (listed_data w a permissions) (\<lambda>data.
      if \<not> truthy data then cli_info w ''No permissions found'' (Some True)
      else
        bind (print_perm (VStr ''Range'') (VStr ''Group'') (VStr ''Regex'')) (\<lambda>_.
        bind (networksort w data) (\<lambda>sorted.
        for_each sorted print_row)))) s = (r, s')"
    by (simp add: network_list_def)
  show ?thesis
  proof (rule bindE [OF b])
    fix e assume "get_list w (list_url a) s = (Inl e, s')" "r = Inl e"
    then show ?thesis
      by (intro quiet) (auto simp: get_list_run new_events_def)
  next
    fix v s1
    assume g: "get_list w (list_url a) s = (Inr v, s1)"
      and b2: "bind (listed_data w a v) (\<lambda>data.
        if \<not> truthy data then cli_info w ''No permissions found'' (Some True)
        else
          bind (print_perm (VStr ''Range'') (VStr ''Group'') (VStr ''Regex'')) (\<lambda>_.
          bind (networksort w data) (\<lambda>sorted.
          for_each sorted print_row))) s1 = (r, s')"
    from g have v: "answer w (clock s) = Inr v" and s1: "s1 = ?s0"
      by (auto simp: get_list_run)
    show ?thesis
    proof (rule bindE [OF b2])
      fix e assume "listed_data w a v s1 = (Inl e, s')" "r = Inl e"
      with listed_data_run [of w a v s1 "Inl e" s'] s1 show ?thesis
        by (intro quiet) (auto simp: new_events_def)
    next
      fix data s2
      assume ld: "listed_data w a v s1 = (Inr data, s2)"
        and b3: "(if \<not> truthy data then cli_info w ''No permissions found'' (Some True)
          else
            bind (print_perm (VStr ''Range'') (VStr ''Group'') (VStr ''Regex'')) (\<lambda>_.
            bind (networksort w data) (\<lambda>sorted.
            for_each sorted print_row))) s2 = (r, s')"
      from listed_data_run [OF ld] have s2: "s2 = s1"
        and data: "(range_arg a = None \<and> data = v)
          \<or> (range_arg a \<noteq> None
              \<and> (\<exists>items sel. iter_list v = Inr items \<and> data = VList sel \<and> set sel \<subseteq> set items))"
        by auto
      show ?thesis
      proof (cases "truthy data")
        case False
        with b3 have "cli_info w ''No permissions found'' (Some True) s2 = (r, s')"
          by simp
        then have tr: "trace s' = trace s2 @ [Info ''No permissions found'' (Some True)]"
          by (auto simp: cli_info_run)
        show ?thesis
        proof (rule quiet)
          show "range_column (new_events s s') = []"
            using tr s2 s1 by (simp add: new_events_def)
          show "\<forall>ps. r = Inr () \<and> range_arg a = None \<and> answer w (clock s) = Inr (VList ps) \<longrightarrow> ps = []"
            using False data v by (auto simp: truthy_def)
        qed
      next
        case True
        with b3 have b4: "bind (print_perm (VStr ''Range'') (VStr ''Group'') (VStr ''Regex'')) (\<lambda>_.
            bind (networksort w data) (\<lambda>sorted. for_each sorted print_row)) s2 = (r, s')"
          by simp
        let ?s3 = "s2\<lparr>trace := trace s2 @ [PrintPerm (VStr ''Range'') (VStr ''Group'') (VStr ''Regex'')]\<rparr>"
        have hdr: "print_perm (VStr ''Range'') (VStr ''Group'') (VStr ''Regex'') s2 = (Inr (), ?s3)"
          by (simp add: print_perm_def pads_def emit_def)
        from b4 hdr have b5: "bind (networksort w data) (\<lambda>sorted. for_each sorted print_row) ?s3 = (r, s')"
          by (simp add: bind_def)
        have tr3: "trace ?s3 = trace s @ [GetList (list_url a), PrintPerm (VStr ''Range'') (VStr ''Group'') (VStr ''Regex'')]"
          using s2 s1 by simp
        show ?thesis
        proof (rule bindE [OF b5])
          fix e assume ns: "networksort w data ?s3 = (Inl e, s')" and re: "r = Inl e"
          from networksort_run [OF ns] have "s' = ?s3" by simp
          then have col: "range_column (new_events s s') = [VStr ''Range'']"
            using tr3 by (simp add: new_events_def)
          show ?thesis
            by (rule exI [of _ "[]"]) (use col re empty in auto)
        next
          fix out s4
          assume ns: "networksort w data ?s3 = (Inr out, s4)"
            and pr: "for_each out print_row s4 = (r, s')"
          from networksort_run [OF ns] obtain items ps where s4: "s4 = ?s3"
            and items: "iter_list data = Inr items"
            and ps: "map (parse_entry w) items = map Some ps"
            and out: "out = sort_key (\<lambda>p. net_key (fst p)) (filter (\<lambda>p. version (fst p) = V4) ps)
                    @ sort_key (\<lambda>p. net_key (fst p)) (filter (\<lambda>p. version (fst p) \<noteq> V4) ps)"
            by auto
          let ?o4 = "sort_key (\<lambda>p. net_key (fst p)) (filter (\<lambda>p. version (fst p) = V4) ps)"
          let ?o6 = "sort_key (\<lambda>p. net_key (fst p)) (filter (\<lambda>p. version (fst p) \<noteq> V4) ps)"
          have in_ps: "\<exists>i\<in>set items. parse_entry w i = Some p" if "p \<in> set ps" for p
          proof -
            from that have "Some p \<in> set (map (parse_entry w) items)"
              using ps by simp
            then show ?thesis by auto
          qed
          have set_out: "set out \<subseteq> set ps"
            using out by auto
          have rng: "\<forall>p\<in>set out. getitem (snd p) ''range'' = Inr (VNet (fst p))"
            using set_out in_ps parse_entry_range by blast
          from print_rows_run [OF pr rng] obtain k evs where
            k: "k \<le> length out" "trace s' = trace s4 @ evs"
            "range_column evs = map (\<lambda>p. VStr (net_text (fst p))) (take k out)"
            "r = Inr () \<longrightarrow> k = length out"
            by blast
          let ?rows = "take k out"
          have col: "range_column (new_events s s') = VStr ''Range'' # map (\<lambda>p. VStr (net_text (fst p))) ?rows"
            using k(2,3) s4 tr3 by (simp add: new_events_def range_column_append)
          have items_v: "\<exists>items'. iter_list v = Inr items' \<and> set items \<subseteq> set items'"
            using data items by (auto simp: iter_list_def)
          have tie: "\<forall>p\<in>set ?rows. \<exists>v items i. answer w (clock s) = Inr v \<and> iter_list v = Inr items
                \<and> i \<in> set items \<and> parse_entry w i = Some p"
          proof
            fix p assume "p \<in> set ?rows"
            then have "p \<in> set ps" using set_out by (auto dest: in_set_takeD)
            from in_ps [OF this] obtain i where i: "i \<in> set items" "parse_entry w i = Some p"
              by blast
            from items_v obtain items' where "iter_list v = Inr items'" "set items \<subseteq> set items'"
              by blast
            with i v show "\<exists>v items i. answer w (clock s) = Inr v \<and> iter_list v = Inr items
                \<and> i \<in> set items \<and> parse_entry w i = Some p"
              by blast
          qed
          have tk: "map fst ?rows = map fst (take k ?o4) @ map fst (take (k - length ?o4) ?o6)"
            using out by simp
          have ord: "ordered_listing (map fst ?rows)"
            unfolding tk
          proof (rule ordered_listingI)
            show "\<forall>n\<in>set (map fst (take k ?o4)). version n = V4"
              by (auto dest!: in_set_takeD)
            show "\<forall>n\<in>set (map fst (take (k - length ?o4) ?o6)). version n = V6"
              by (auto dest!: in_set_takeD) (metis ipver.exhaust)
            have "sorted (map (\<lambda>p. net_key (fst p)) ?o4)" by simp
            then have "sorted (take k (map (\<lambda>p. net_key (fst p)) ?o4))"
              by (rule sorted_wrt_take)
            then show "sorted (map net_key (map fst (take k ?o4)))"
              by (simp add: take_map comp_def)
            have "sorted (map (\<lambda>p. net_key (fst p)) ?o6)" by simp
            then have "sorted (take (k - length ?o4) (map (\<lambda>p. net_key (fst p)) ?o6))"
              by (rule sorted_wrt_take)
            then show "sorted (map net_key (map fst (take (k - length ?o4) ?o6)))"
              by (simp add: take_map comp_def)
          qed
          have complete: "\<forall>qs. r = Inr () \<and> range_arg a = None \<and> answer w (clock s) = Inr (VList qs)
                \<longrightarrow> mset (map Some ?rows) = mset (map (parse_entry w) qs)"
          proof (intro allI impI)
            fix qs assume h: "r = Inr () \<and> range_arg a = None \<and> answer w (clock s) = Inr (VList qs)"
            with data v have "data = VList qs" by auto
            with items have "items = qs" by (simp add: iter_list_def)
            moreover from h k(4) have "?rows = out" by simp
            moreover have "mset out = mset ps"
              unfolding out by (rule mset_sorted_parts)
            ultimately show "mset (map Some ?rows) = mset (map (parse_entry w) qs)"
              using ps by (metis mset_map)
          qed
          show ?thesis
            by (rule exI [of _ ?rows]) (use col tie ord complete in blast)
        qed
      qed
    qed
  qed
qed

lemma listing_run:
  "network_list listing_world no_args (init_state []) =
     (Inr (), \<lparr>stdin = [], clock = 1, trace =
        [GetList ''/permissions/netgroupregex/?ordering=group'',
         PrintPerm (VStr ''Range'') (VStr ''Group'') (VStr ''Regex''),
         PrintPerm (VStr ''10.0.0.0/24'') (VStr ''ga'') (VStr ''.*''),
         PrintPerm (VStr ''10.0.1.0/24'') (VStr ''gb'') (VStr ''.*''),
         PrintPerm (VStr ''2001:db8::/32'') (VStr ''g6'') (VStr ''.*'')]\<rparr>)"
  by code_simp

theorem network_list_order_witness:
  "network_list listing_world no_args (init_state []) =
     (Inr (), \<lparr>stdin = [], clock = 1, trace =
        [GetList ''/permissions/netgroupregex/?ordering=group'',
         PrintPerm (VStr ''Range'') (VStr ''Group'') (VStr ''Regex''),
         PrintPerm (VStr ''10.0.0.0/24'') (VStr ''ga'') (VStr ''.*''),
         PrintPerm (VStr ''10.0.1.0/24'') (VStr ''gb'') (VStr ''.*''),
         PrintPerm (VStr ''2001:db8::/32'') (VStr ''g6'') (VStr ''.*'')]\<rparr>)
   \<and> (\<exists>rows.
        [VStr ''Range'', VStr ''10.0.0.0/24'', VStr ''10.0.1.0/24'', VStr ''2001:db8::/32'']
          = VStr ''Range'' # map (\<lambda>p. VStr (net_text (fst p))) rows
      \<and> ordered_listing (map fst rows)
      \<and> mset (map Some rows) =
          mset (map (parse_entry listing_world)
                 [perm ''2001:db8::/32'' ''g6'' ''.*'' 1,
                  perm ''10.0.1.0/24'' ''gb'' ''.*'' 2,
                  perm ''10.0.0.0/24'' ''ga'' ''.*'' 3]))"
proof -
  have ans: "answer listing_world (clock (init_state [])) =
      Inr (VList [perm ''2001:db8::/32'' ''g6'' ''.*'' 1,
                  perm ''10.0.1.0/24'' ''gb'' ''.*'' 2,
                  perm ''10.0.0.0/24'' ''ga'' ''.*'' 3])"
    by (simp add: listing_world_def scripted_def init_state_def)
  have col: "range_column (new_events (init_state [])
       \<lparr>stdin = [], clock = 1, trace =
        [GetList ''/permissions/netgroupregex/?ordering=group'',
         PrintPerm (VStr ''Range'') (VStr ''Group'') (VStr ''Regex''),
         PrintPerm (VStr ''10.0.0.0/24'') (VStr ''ga'') (VStr ''.*''),
         PrintPerm (VStr ''10.0.1.0/24'') (VStr ''gb'') (VStr ''.*''),
         PrintPerm (VStr ''2001:db8::/32'') (VStr ''g6'') (VStr ''.*'')]\<rparr>)
     = [VStr ''Range'', VStr ''10.0.0.0/24'', VStr ''10.0.1.0/24'', VStr ''2001:db8::/32'']"
    by (simp add: new_events_def init_state_def)
  have na: "range_arg no_args = None"
    by (simp add: no_args_def)
  from network_list_order [OF listing_run] obtain rows where
    c: "range_column (new_events (init_state [])
       \<lparr>stdin = [], clock = 1, trace =
        [GetList ''/permissions/netgroupregex/?ordering=group'',
         PrintPerm (VStr ''Range'') (VStr ''Group'') (VStr ''Regex''),
         PrintPerm (VStr ''10.0.0.0/24'') (VStr ''ga'') (VStr ''.*''),
         PrintPerm (VStr ''10.0.1.0/24'') (VStr ''gb'') (VStr ''.*''),
         PrintPerm (VStr ''2001:db8::/32'') (VStr ''g6'') (VStr ''.*'')]\<rparr>) = [] \<and> rows = []
      \<or> range_column (new_events (init_state [])
       \<lparr>stdin = [], clock = 1, trace =
        [GetList ''/permissions/netgroupregex/?ordering=group'',
         PrintPerm (VStr ''Range'') (VStr ''Group'') (VStr ''Regex''),
         PrintPerm (VStr ''10.0.0.0/24'') (VStr ''ga'') (VStr ''.*''),
         PrintPerm (VStr ''10.0.1.0/24'') (VStr ''gb'') (VStr ''.*''),
         PrintPerm (VStr ''2001:db8::/32'') (VStr ''g6'') (VStr ''.*'')]\<rparr>)
        = VStr ''Range'' # map (\<lambda>p. VStr (net_text (fst p))) rows"
    and o: "ordered_listing (map fst rows)"
    and m: "\<forall>ps. Inr () = (Inr () :: exc + unit) \<and> range_arg no_args = None
              \<and> answer listing_world (clock (init_state [])) = Inr (VList ps)
            \<longrightarrow> mset (map Some rows) = mset (map (parse_entry listing_world) ps)"
    by blast
  from c have c': "[VStr ''Range'', VStr ''10.0.0.0/24'', VStr ''10.0.1.0/24'', VStr ''2001:db8::/32'']
          = VStr ''Range'' # map (\<lambda>p. VStr (net_text (fst p))) rows"
    unfolding col by simp
  from m ans na have m': "mset (map Some rows) =
          mset (map (parse_entry listing_world)
                 [perm ''2001:db8::/32'' ''g6'' ''.*'' 1,
                  perm ''10.0.1.0/24'' ''gb'' ''.*'' 2,
                  perm ''10.0.0.0/24'' ''ga'' ''.*'' 3])"
    by blast
  show ?thesis
    apply (rule conjI)
     apply (rule listing_run)
    apply (rule exI [of _ rows])
    apply (intro conjI)
      apply (rule c')
     apply (rule o)
    apply (rule m')
    done
qed

subsection \<open>The removal of a network permission\<close>

lemmas run_defs = if_run bind_def ret_def raise_def lift_def emit_def call_def
  cli_warning_def cli_info_def get_list_def http_delete_def record_delete_def

lemma network_remove_none:
  assumes "answer w (clock s) = Inr (VList [])" "network_remove w a s = (r, s')"
  shows "new_events s s' = [GetList (remove_url a), Warning ''No matching permission found'' (Some True)]"
  using assms
  by (auto simp: network_remove_def Let_def run_defs truthy_def new_events_def
      simp del: py_format.simps split: sum.splits if_splits)

lemma network_remove_many:
  assumes "answer w (clock s) = Inr (VList ps)" "1 < length ps" "network_remove w a s = (r, s')"
  shows "r = Inl (AssertionError ''Should only match one permission'') \<and> new_events s s' = [GetList (remove_url a)]"
  using assms
  by (auto simp: network_remove_def Let_def run_defs truthy_def py_len_def new_events_def
      simp del: py_format.simps split: sum.splits if_splits)

lemma network_remove_delete_single:
  assumes "network_remove w a s = (r, s')" "e \<in> set (new_events s s')" "is_delete_call e"
  shows "\<exists>p. answer w (clock s) = Inr (VList [p])"
  using assms
  by (auto simp: network_remove_def Let_def run_defs new_events_def is_delete_call_def py_len_def
      getindex_def index_def getitem_def truthy_def length_Suc_conv
      simp del: py_format.simps split: sum.splits if_splits pyval.splits option.splits)

text \<open>
  C9. \<^verbatim>\<open>network_remove\<close> issues its HTTP DELETE (and the record of it) only when the query
  returns a list of exactly one permission. With no match it warns and issues nothing
  else. With more than one match the assertion fails, before any record or DELETE: the
  only call made is the query.
\<close>

theorem network_remove_single_match:
  assumes "network_remove w a s = (r, s')"
  shows "(answer w (clock s) = Inr (VList []) \<longrightarrow>
            new_events s s' = [GetList (remove_url a), Warning ''No matching permission found'' (Some True)])
       \<and> (\<forall>ps. answer w (clock s) = Inr (VList ps) \<and> 1 < length ps \<longrightarrow>
            r = Inl (AssertionError ''Should only match one permission'')
            \<and> new_events s s' = [GetList (remove_url a)])
       \<and> ((\<exists>e\<in>set (new_events s s'). is_delete_call e) \<longrightarrow>
            (\<exists>p. answer w (clock s) = Inr (VList [p])))"
  using network_remove_none [OF _ assms] network_remove_many [OF _ _ assms]
    network_remove_delete_single [OF assms]
  by blast

lemma two_matches_run:
  "network_remove two_matches_world remove_args (init_state []) =
     (Inl (AssertionError ''Should only match one permission''),
      \<lparr>stdin = [], clock = 1,
        trace = [GetList ''/permissions/netgroupregex/?group=ga&range=10.0.0.0%2F24&regex=.%2A'']\<rparr>)"
  by code_simp

lemma one_match_run:
  "network_remove one_match_world remove_args (init_state []) =
     (Inr (),
      \<lparr>stdin = [], clock = 4,
        trace = [GetList ''/permissions/netgroupregex/?group=ga&range=10.0.0.0%2F24&regex=.%2A'',
                 RecordDelete ''/permissions/netgroupregex/3'' (VDict []) (Some False) None,
                 HttpDelete ''/permissions/netgroupregex/3'',
                 Info ''Removed permission for 10.0.0.0/24'' (Some True)]\<rparr>)"
  by code_simp

theorem network_remove_single_match_witness:
  "network_remove two_matches_world remove_args (init_state []) =
     (Inl (AssertionError ''Should only match one permission''),
      \<lparr>stdin = [], clock = 1,
        trace = [GetList ''/permissions/netgroupregex/?group=ga&range=10.0.0.0%2F24&regex=.%2A'']\<rparr>)
   \<and> new_events (init_state [])
        \<lparr>stdin = [], clock = 1,
          trace = [GetList ''/permissions/netgroupregex/?group=ga&range=10.0.0.0%2F24&regex=.%2A'']\<rparr>
       = [GetList (remove_url remove_args)]
   \<and> network_remove one_match_world remove_args (init_state []) =
     (Inr (),
      \<lparr>stdin = [], clock = 4,
        trace = [GetList ''/permissions/netgroupregex/?group=ga&range=10.0.0.0%2F24&regex=.%2A'',
                 RecordDelete ''/permissions/netgroupregex/3'' (VDict []) (Some False) None,
                 HttpDelete ''/permissions/netgroupregex/3'',
                 Info ''Removed permission for 10.0.0.0/24'' (Some True)]\<rparr>)
   \<and> (\<exists>p. answer one_match_world (clock (init_state [])) = Inr (VList [p]))"
proof -
  have ans: "answer two_matches_world (clock (init_state [])) =
      Inr (VList [perm ''10.0.0.0/24'' ''ga'' ''.*'' 3, perm ''10.0.0.0/24'' ''ga'' ''.*'' 4])"
    by (simp add: two_matches_world_def scripted_def init_state_def)
  have many: "new_events (init_state [])
        \<lparr>stdin = [], clock = 1,
          trace = [GetList ''/permissions/netgroupregex/?group=ga&range=10.0.0.0%2F24&regex=.%2A'']\<rparr>
       = [GetList (remove_url remove_args)]"
    using network_remove_single_match [OF two_matches_run] ans by simp
  have del: "\<exists>e\<in>set (new_events (init_state [])
      \<lparr>stdin = [], clock = 4,
        trace = [GetList ''/permissions/netgroupregex/?group=ga&range=10.0.0.0%2F24&regex=.%2A'',
                 RecordDelete ''/permissions/netgroupregex/3'' (VDict []) (Some False) None,
                 HttpDelete ''/permissions/netgroupregex/3'',
                 Info ''Removed permission for 10.0.0.0/24'' (Some True)]\<rparr>). is_delete_call e"
    by (simp add: new_events_def init_state_def is_delete_call_def)
  have one: "\<exists>p. answer one_match_world (clock (init_state [])) = Inr (VList [p])"
    using network_remove_single_match [OF one_match_run] del by blast
  show ?thesis
    apply (intro conjI)
       apply (rule two_matches_run)
      apply (rule many)
     apply (rule one_match_run)
    apply (rule one)
    done
qed

subsection \<open>The history log: undo and the default flags\<close>

lemma find_set_undone:
  "find (\<lambda>x. entry_seq x = n) (set_undone n b log) =
     map_option (\<lambda>x. x\<lparr>entry_undone := b\<rparr>) (find (\<lambda>x. entry_seq x = n) log)"
  by (induction log) (auto simp: set_undone_def)

lemma set_undone_others:
  "filter (\<lambda>x. entry_seq x \<noteq> n) (set_undone n b log) = filter (\<lambda>x. entry_seq x \<noteq> n) log"
  by (induction log) (auto simp: set_undone_def)

text \<open>
  C1. For an entry that is found under the sequence number, is undoable, is not yet undone
  and records a POST, PATCH or DELETE, \<^verbatim>\<open>undo\<close> issues exactly one call: a DELETE for a
  recorded POST, a PATCH carrying \<^verbatim>\<open>old_data\<close> for a recorded PATCH, a POST carrying
  \<^verbatim>\<open>old_data\<close> for a recorded DELETE, each at the entry's URL. The call succeeds exactly
  when \<^verbatim>\<open>undo\<close> succeeds, and afterwards the entry's \<^verbatim>\<open>undone\<close> flag is set exactly in
  that case; when the call fails the log is unchanged. No other entry and no other
  attribute of the entry changes.
\<close>

theorem undo_compensates:
  assumes "find (\<lambda>x. entry_seq x = n) log = Some e"
    and "entry_undoable e" and "\<not> entry_undone e" and "entry_method e \<noteq> GET"
    and "log_undo transport n log = (r, log', calls)"
  shows "(entry_method e = POST \<longrightarrow> calls = [Request DELETE (entry_url e) None])
       \<and> (entry_method e = PATCH \<longrightarrow> calls = [Request PATCH (entry_url e) (Some (entry_old_data e))])
       \<and> (entry_method e = DELETE \<longrightarrow> calls = [Request POST (entry_url e) (Some (entry_old_data e))])
       \<and> (\<exists>rq. calls = [rq] \<and> (r = Inr () \<longleftrightarrow> transport rq = None)
             \<and> (\<forall>x. transport rq = Some x \<longrightarrow> r = Inl (UpstreamFailure x) \<and> log' = log))
       \<and> (\<exists>e'. find (\<lambda>x. entry_seq x = n) log' = Some e'
             \<and> (entry_undone e' \<longleftrightarrow> r = Inr ())
             \<and> e'\<lparr>entry_undone := False\<rparr> = e)
       \<and> filter (\<lambda>x. entry_seq x \<noteq> n) log' = filter (\<lambda>x. entry_seq x \<noteq> n) log"
proof -
  from assms(4) obtain rq where rq: "undo_request e = Some rq"
    by (cases "entry_method e") (auto simp: undo_request_def)
  show ?thesis
  proof (cases "transport rq")
    case None
    with assms rq have res: "r = Inr ()" "log' = set_undone n True log" "calls = [rq]"
      by (auto simp: log_undo_def)
    have e': "find (\<lambda>x. entry_seq x = n) log' = Some (e\<lparr>entry_undone := True\<rparr>)"
      using res assms(1) by (simp add: find_set_undone)
    have same: "e\<lparr>entry_undone := True\<rparr>\<lparr>entry_undone := False\<rparr> = e"
      using assms(3) by simp
    show ?thesis
      using res rq None e' same
      by (auto simp: undo_request_def set_undone_others split: http_method.splits)
  next
    case (Some x)
    with assms rq have res: "r = Inl (UpstreamFailure x)" "log' = log" "calls = [rq]"
      by (auto simp: log_undo_def)
    have same: "e\<lparr>entry_undone := False\<rparr> = e"
      using assms(3) by simp
    show ?thesis
      using res rq Some assms(1,3) same
      by (auto simp: undo_request_def split: http_method.splits)
  qed
qed

lemma demo_find: "find (\<lambda>x. entry_seq x = 2) demo_log = Some demo_patch"
  by (simp add: demo_log_def demo_patch_def log_record_delete_def log_record_patch_def
      log_record_post_def append_entry_def flag_or_def)

lemma demo_undo_ok:
  "log_undo transport_ok 2 demo_log =
     (Inr (), set_undone 2 True demo_log,
      [Request PATCH ''/hosts/a'' (Some (VDict [(''ttl'', VInt (- 1))]))])"
  by (simp add: log_undo_def demo_find undo_request_def transport_ok_def demo_patch_def)

lemma demo_undo_down:
  "log_undo transport_down 2 demo_log =
     (Inl (UpstreamFailure (OtherError ''connection refused'')), demo_log,
      [Request PATCH ''/hosts/a'' (Some (VDict [(''ttl'', VInt (- 1))]))])"
  by (simp add: log_undo_def demo_find undo_request_def transport_down_def demo_patch_def)

theorem undo_compensates_witness:
  "find (\<lambda>x. entry_seq x = 2) demo_log = Some demo_patch
   \<and> entry_undoable demo_patch \<and> \<not> entry_undone demo_patch \<and> entry_method demo_patch \<noteq> GET
   \<and> log_undo transport_ok 2 demo_log =
       (Inr (), set_undone 2 True demo_log,
        [Request PATCH ''/hosts/a'' (Some (VDict [(''ttl'', VInt (- 1))]))])
   \<and> (\<exists>e'. find (\<lambda>x. entry_seq x = 2) (set_undone 2 True demo_log) = Some e' \<and> entry_undone e')
   \<and> log_undo transport_down 2 demo_log =
       (Inl (UpstreamFailure (OtherError ''connection refused'')), demo_log,
        [Request PATCH ''/hosts/a'' (Some (VDict [(''ttl'', VInt (- 1))]))])
   \<and> (\<exists>e'. find (\<lambda>x. entry_seq x = 2) demo_log = Some e' \<and> \<not> entry_undone e')"
proof -
  have h: "entry_undoable demo_patch" "\<not> entry_undone demo_patch" "entry_method demo_patch \<noteq> GET"
    by (simp_all add: demo_patch_def)
  have ok: "\<exists>e'. find (\<lambda>x. entry_seq x = 2) (set_undone 2 True demo_log) = Some e' \<and> entry_undone e'"
    using undo_compensates [OF demo_find h demo_undo_ok] by blast
  have down: "\<exists>e'. find (\<lambda>x. entry_seq x = 2) demo_log = Some e' \<and> \<not> entry_undone e'"
    using undo_compensates [OF demo_find h demo_undo_down] by blast
  show ?thesis
    using demo_find h demo_undo_ok demo_undo_down ok down by (intro conjI)
qed

text \<open>
  C5. \<^verbatim>\<open>record_delete\<close> records a removal whose \<^verbatim>\<open>redoable\<close> flag is false when the argument
  is left out, and whose \<^verbatim>\<open>undoable\<close> flag is then true; \<^verbatim>\<open>record_post\<close> and
  \<^verbatim>\<open>record_patch\<close> default both flags to true. So a delete recorded without an explicit
  \<^verbatim>\<open>redoable\<close> argument is not redoable.
\<close>

theorem record_defaults:
  "\<not> entry_redoable (last (log_record_delete u old un None log))
   \<and> entry_undoable (last (log_record_delete u old None re log))
   \<and> entry_method (last (log_record_delete u old un re log)) = DELETE
   \<and> entry_redoable (last (log_record_post u name new un None log))
   \<and> entry_undoable (last (log_record_post u name new None re log))
   \<and> entry_redoable (last (log_record_patch u new old un None log))
   \<and> entry_undoable (last (log_record_patch u new old None re log))"
  by (simp add: log_record_delete_def log_record_post_def log_record_patch_def append_entry_def
      flag_or_def)

end
